theory Spec2Isabelle
  imports Complex_Main
begin

section \<open>JavaScript values and strings\<close>

text \<open>
  Tool outputs, tool arguments and the result of \<^verbatim>\<open>JSON.parse\<close> are untyped
  JavaScript values. They are modelled by a tree of JSON-like values; numbers are
  restricted to integers and an object is the list of its own properties in insertion
  order (property names of a well-formed object are distinct). A string is a list of
  code units below 256.
\<close>

datatype jsval =
    JUndefined
  | JNull
  | JBool bool
  | JNum int
  | JStr string
  | JArr "jsval list"
  | JObj "(string \<times> jsval) list"

text \<open>JavaScript truthiness, as tested by \<^verbatim>\<open>if (v)\<close>, \<^verbatim>\<open>!!v\<close> and \<^verbatim>\<open>v || w\<close>.\<close>

fun truthy :: "jsval \<Rightarrow> bool" where
  "truthy JUndefined = False"
| "truthy JNull = False"
| "truthy (JBool b) = b"
| "truthy (JNum n) = (n \<noteq> 0)"
| "truthy (JStr s) = (s \<noteq> [])"
| "truthy (JArr xs) = True"
| "truthy (JObj kvs) = True"

text \<open>\<^verbatim>\<open>typeof v === 'object' && v !== null\<close>: objects and arrays.\<close>

fun isObject :: "jsval \<Rightarrow> bool" where
  "isObject (JObj kvs) = True"
| "isObject (JArr xs) = True"
| "isObject v = False"

text \<open>\<^verbatim>\<open>v.hasOwnProperty(k)\<close> for the property names the code asks about
  (none of them is an own property of an array).\<close>

fun hasOwnProperty :: "jsval \<Rightarrow> string \<Rightarrow> bool" where
  "hasOwnProperty (JObj kvs) k = (map_of kvs k \<noteq> None)"
| "hasOwnProperty v k = False"

text \<open>Property read \<^verbatim>\<open>v.k\<close> on a value that is neither \<^verbatim>\<open>null\<close> nor
  \<^verbatim>\<open>undefined\<close>; a missing property reads as \<^verbatim>\<open>undefined\<close>.\<close>

fun getProp :: "jsval \<Rightarrow> string \<Rightarrow> jsval" where
  "getProp (JObj kvs) k = (case map_of kvs k of Some v \<Rightarrow> v | None \<Rightarrow> JUndefined)"
| "getProp v k = JUndefined"

fun nullish :: "jsval \<Rightarrow> bool" where
  "nullish JUndefined = True"
| "nullish JNull = True"
| "nullish v = False"

text \<open>\<^verbatim>\<open>a || b\<close> on values.\<close>

definition js_or :: "jsval \<Rightarrow> jsval \<Rightarrow> jsval" where
  "js_or a b = (if truthy a then a else b)"

text \<open>\<^verbatim>\<open>String.prototype.startsWith\<close>, \<^verbatim>\<open>includes\<close> and \<^verbatim>\<open>trim\<close>.\<close>

fun startsWith :: "string \<Rightarrow> string \<Rightarrow> bool" where
  "startsWith s [] = True"
| "startsWith [] (p # ps) = False"
| "startsWith (c # s) (p # ps) = (c = p \<and> startsWith s ps)"

fun str_includes :: "string \<Rightarrow> string \<Rightarrow> bool" where
  "str_includes [] t = (t = [])"
| "str_includes (c # s) t = (startsWith (c # s) t \<or> str_includes s t)"

definition isWhiteSpace :: "char \<Rightarrow> bool" where
  "isWhiteSpace c = (c \<in> set [CHR 0x09, CHR 0x0A, CHR 0x0B, CHR 0x0C, CHR 0x0D, CHR 0x20, CHR 0xA0])"

definition trim :: "string \<Rightarrow> string" where
  "trim s = rev (dropWhile isWhiteSpace (rev (dropWhile isWhiteSpace s)))"

section \<open>Response interpretation (UnifiedLLMClient.parseResponse)\<close>

record FunctionCall =
  fc_name :: string
  fc_arguments :: jsval

text \<open>The response of the LLM client; \<open>resp_reasoning\<close> is
  \<^verbatim>\<open>reasoning?.summary\<close>, the only part of the reasoning that is read.\<close>

record UnifiedLLMResponse =
  resp_text :: "string option"
  resp_functionCall :: "FunctionCall option"
  resp_reasoning :: "string list option"

text \<open>
  \<^verbatim>\<open>ParsedLLMAction\<close>. The tool name taken from a parsed envelope is whatever truthy
  value the JSON text holds under \<^verbatim>\<open>toolName\<close>, so the name is a value.
\<close>

datatype ParsedLLMAction =
    tool_call (action_name: jsval) (action_args: jsval)
  | final_answer (action_answer: string)
  | error_action (action_error: string)

definition toolEnvelopeMarker :: string where
  \<open>toolEnvelopeMarker = ''"action":"tool"''\<close>

text \<open>
  \<^verbatim>\<open>JSON.parse\<close> is the runtime's; it is a parameter \<open>jsonParse\<close>, with \<open>None\<close>
  for a thrown \<^verbatim>\<open>SyntaxError\<close>. Reading a property of \<^verbatim>\<open>null\<close> throws inside
  the same \<^verbatim>\<open>try\<close> block and is caught by the same handler.
\<close>

definition parseResponse :: "(string \<Rightarrow> jsval option) \<Rightarrow> UnifiedLLMResponse \<Rightarrow> ParsedLLMAction" where
  "parseResponse jsonParse response =
    (case resp_functionCall response of
       Some fc \<Rightarrow> tool_call (JStr (fc_name fc)) (fc_arguments fc)
     | None \<Rightarrow>
        (case resp_text response of
           None \<Rightarrow> error_action ''No valid response from LLM''
         | Some rawContent \<Rightarrow>
            if rawContent = [] then error_action ''No valid response from LLM''
            else if startsWith (trim rawContent) ''{'' \<and> str_includes rawContent toolEnvelopeMarker then
              (case jsonParse rawContent of
                 None \<Rightarrow> final_answer rawContent
               | Some contentJson \<Rightarrow>
                  if nullish contentJson then final_answer rawContent
                  else if getProp contentJson ''action'' = JStr ''tool''
                          \<and> truthy (getProp contentJson ''toolName'')
                  then tool_call (getProp contentJson ''toolName'')
                                 (js_or (getProp contentJson ''toolArgs'') (JObj []))
                  else final_answer rawContent)
            else final_answer rawContent))"

section \<open>Rendering values as text\<close>

text \<open>Decimal rendering of a number in a template literal or by \<^verbatim>\<open>JSON.stringify\<close>.\<close>

definition digitChar :: "nat \<Rightarrow> char" where
  "digitChar d = char_of (48 + d)"

fun natToString :: "nat \<Rightarrow> string" where
  "natToString n = (if n < 10 then [digitChar n] else natToString (n div 10) @ [digitChar (n mod 10)])"

definition intToString :: "int \<Rightarrow> string" where
  "intToString i = (if i < 0 then CHR ''-'' # natToString (nat (- i)) else natToString (nat i))"

text \<open>\<^verbatim>\<open>String(v)\<close>, used when a value is interpolated into a message.\<close>

fun joinWith :: "string \<Rightarrow> string list \<Rightarrow> string" where
  "joinWith sep [] = []"
| "joinWith sep [x] = x"
| "joinWith sep (x # y # ys) = x @ sep @ joinWith sep (y # ys)"

fun jsToString :: "jsval \<Rightarrow> string" where
  "jsToString JUndefined = ''undefined''"
| "jsToString JNull = ''null''"
| "jsToString (JBool b) = (if b then ''true'' else ''false'')"
| "jsToString (JNum n) = intToString n"
| "jsToString (JStr s) = s"
| "jsToString (JArr xs) = joinWith '','' (map (\<lambda>x. if nullish x then [] else jsToString x) xs)"
| "jsToString (JObj kvs) = ''[object Object]''"

text \<open>
  \<^verbatim>\<open>JSON.stringify(v, null, 2)\<close>. The quoting of a string escapes the quote, the
  backslash and the control characters. \<open>None\<close> stands for the result
  \<^verbatim>\<open>undefined\<close>; a property whose value is \<^verbatim>\<open>undefined\<close> is left out and an
  array element that is \<^verbatim>\<open>undefined\<close> is written \<^verbatim>\<open>null\<close>.
\<close>

definition hexDigit :: "nat \<Rightarrow> char" where
  "hexDigit d = (if d < 10 then char_of (48 + d) else char_of (87 + d))"

definition quoteChar :: "char \<Rightarrow> string" where
  "quoteChar c =
    (if c = CHR 0x22 then [CHR 0x5C, CHR 0x22]
     else if c = CHR 0x5C then [CHR 0x5C, CHR 0x5C]
     else if c = CHR 0x08 then [CHR 0x5C, CHR ''b'']
     else if c = CHR 0x0C then [CHR 0x5C, CHR ''f'']
     else if c = CHR 0x0A then [CHR 0x5C, CHR ''n'']
     else if c = CHR 0x0D then [CHR 0x5C, CHR ''r'']
     else if c = CHR 0x09 then [CHR 0x5C, CHR ''t'']
     else if of_char c < (32 :: nat)
       then [CHR 0x5C, CHR ''u'', CHR ''0'', CHR ''0'', hexDigit (of_char c div 16), hexDigit (of_char c mod 16)]
     else [c])"

definition quoteJSONString :: "string \<Rightarrow> string" where
  "quoteJSONString s = [CHR 0x22] @ concat (map quoteChar s) @ [CHR 0x22]"

fun stringifyValue :: "string \<Rightarrow> jsval \<Rightarrow> string option"
  and stringifyElements :: "string \<Rightarrow> jsval list \<Rightarrow> string list"
  and stringifyProperties :: "string \<Rightarrow> (string \<times> jsval) list \<Rightarrow> string list"
where
  "stringifyValue ind JUndefined = None"
| "stringifyValue ind JNull = Some ''null''"
| "stringifyValue ind (JBool b) = Some (if b then ''true'' else ''false'')"
| "stringifyValue ind (JNum n) = Some (intToString n)"
| "stringifyValue ind (JStr s) = Some (quoteJSONString s)"
| "stringifyValue ind (JArr xs) =
     (if xs = [] then Some ''[]''
      else Some (''['' @ [CHR 0x0A] @ ind @ ''  ''
                 @ joinWith ('','' @ [CHR 0x0A] @ ind @ ''  '') (stringifyElements (ind @ ''  '') xs)
                 @ [CHR 0x0A] @ ind @ '']''))"
| "stringifyValue ind (JObj kvs) =
     (case stringifyProperties (ind @ ''  '') kvs of
        [] \<Rightarrow> Some ''{}''
      | p # ps \<Rightarrow> Some (''{'' @ [CHR 0x0A] @ ind @ ''  ''
                 @ joinWith ('','' @ [CHR 0x0A] @ ind @ ''  '') (p # ps)
                 @ [CHR 0x0A] @ ind @ ''}''))"
| "stringifyElements ind [] = []"
| "stringifyElements ind (x # xs) =
     (case stringifyValue ind x of None \<Rightarrow> ''null'' | Some t \<Rightarrow> t) # stringifyElements ind xs"
| "stringifyProperties ind [] = []"
| "stringifyProperties ind ((k, v) # kvs) =
     (case stringifyValue ind v of
        None \<Rightarrow> stringifyProperties ind kvs
      | Some t \<Rightarrow> (quoteJSONString k @ '': '' @ t) # stringifyProperties ind kvs)"

definition JSON_stringify_2 :: "jsval \<Rightarrow> jsval" where
  "JSON_stringify_2 v = (case stringifyValue [] v of None \<Rightarrow> JUndefined | Some t \<Rightarrow> JStr t)"

section \<open>Messages, results and configuration\<close>

text \<open>
  \<^verbatim>\<open>ChatMessage\<close> is a union tagged by \<^verbatim>\<open>entity\<close> (USER, MODEL, TOOL_RESULT); a
  MODEL message carries \<^verbatim>\<open>action: 'tool' | 'final'\<close>. Optional fields are options
  (\<open>JUndefined\<close> for an absent value).
\<close>

datatype ModelAction = ActionTool | ActionFinal

datatype ChatMessage =
    UserChatMessage (userText: string)
  | ModelChatMessage (action: ModelAction) (toolName: jsval) (toolArgs: jsval)
      (toolCallId: "string option") (answer: "string option") (isFinalAnswer: bool)
      (reasoning: "string list option")
  | ToolResultMessage (toolName: jsval) (resultText: jsval) (isError: bool)
      (toolCallId: "string option") (errorField: "jsval option") (resultData: "jsval option")

datatype AgentRunTerminationReason = FINAL_ANSWER | MAX_ITERATIONS | ERROR | HANDED_OFF

text \<open>
  \<^verbatim>\<open>ConfigurableAgentResult\<close> is declared in ConfigurableAgentTool.ts, which is not
  among the sources. The runner reads and writes \<^verbatim>\<open>intermediateSteps\<close> and
  \<^verbatim>\<open>terminationReason\<close> and copies the rest; the results themselves are made by the
  hooks \<^verbatim>\<open>createSuccessResult\<close> and \<^verbatim>\<open>createErrorResult\<close>, which are parameters
  and are taken to return.
\<close>

record ConfigurableAgentResult =
  success :: bool
  res_output :: "string option"
  res_error :: "string option"
  intermediateSteps :: "ChatMessage list option"
  terminationReason :: "AgentRunTerminationReason option"

type_synonym ResultHook = "string \<Rightarrow> ChatMessage list \<Rightarrow> AgentRunTerminationReason \<Rightarrow> ConfigurableAgentResult"

text \<open>
  A value of the type \<^verbatim>\<open>number\<close>, for the iteration budget: the loop compares its
  counter with it and the messages print it. A finite number is a rational (every double
  is one).
\<close>

datatype jsnumber = Finite rat | PosInfinity | NegInfinity | NotANumber

text \<open>Truthiness of a number, as tested by \<^verbatim>\<open>n || d\<close>: zero and \<^verbatim>\<open>NaN\<close> are
  falsy.\<close>

fun numberIsTruthy :: "jsnumber \<Rightarrow> bool" where
  "numberIsTruthy (Finite r) = (r \<noteq> 0)"
| "numberIsTruthy PosInfinity = True"
| "numberIsTruthy NegInfinity = True"
| "numberIsTruthy NotANumber = False"

text \<open>\<^verbatim>\<open>i < n\<close> for a counter \<open>i\<close> that is a natural number; every comparison with
  \<^verbatim>\<open>NaN\<close> is false.\<close>

fun lessThanNumber :: "nat \<Rightarrow> jsnumber \<Rightarrow> bool" where
  "lessThanNumber i (Finite r) = (of_nat i < r)"
| "lessThanNumber i PosInfinity = True"
| "lessThanNumber i NegInfinity = False"
| "lessThanNumber i NotANumber = False"

text \<open>
  What a \<^verbatim>\<open>throw\<close> or a rejected promise carries: an \<^verbatim>\<open>Error\<close> object, with its
  \<^verbatim>\<open>name\<close> and its \<^verbatim>\<open>message\<close>, or any other value (\<^verbatim>\<open>undefined\<close> and
  \<^verbatim>\<open>null\<close> among them).
\<close>

datatype thrown = ThrownError string string | ThrownValue jsval

text \<open>How an awaited call of the runner settles: with its result, or rejected with what
  was thrown.\<close>

datatype RunOutcome = Resolved ConfigurableAgentResult | Rejected thrown

datatype HandoffTrigger = LLM_TOOL_CALL | MAX_ITERATIONS_TRIGGER

record HandoffConfig =
  targetAgentName :: string
  trigger :: "HandoffTrigger option"
  includeToolResults :: "string list option"

text \<open>
  The configuration of a \<^verbatim>\<open>ConfigurableAgentTool\<close>, with the fields that
  AgentRunner.ts reads. A \<^verbatim>\<open>modelName\<close> is a string or a function; the function
  is represented by the string it returns. The result hooks are taken with the
  configuration already supplied as their last argument.
\<close>

datatype ModelNameSpec = ModelNameFunction string | ModelNameString string

record AgentToolConfig =
  cfg_systemPrompt :: string
  cfg_tools :: "string list"
  cfg_handoffs :: "HandoffConfig list option"
  cfg_modelName :: "ModelNameSpec option"
  cfg_maxIterations :: "jsnumber option"
  cfg_temperature :: "rat option"
  cfg_includeIntermediateStepsOnReturn :: "bool option"
  cfg_createSuccessResult :: "ResultHook option"
  cfg_createErrorResult :: "ResultHook option"

text \<open>
  A tool. \<^verbatim>\<open>execute\<close> is an external effect: at a given moment (the clock of the
  world, below) and for given arguments it returns a value (\<open>Inr\<close>) or it throws or
  rejects (\<open>Inl\<close>, with what was thrown).
\<close>

record Tool =
  tool_name :: string
  tool_description :: string
  tool_schema :: jsval
  tool_execute :: "nat \<Rightarrow> jsval \<Rightarrow> thrown + jsval"

record ConfigurableAgentTool = Tool +
  config :: AgentToolConfig

text \<open>What the registry or a tool list holds; \<open>AgentTool\<close> is the case
  \<^verbatim>\<open>instanceof ConfigurableAgentTool\<close>.\<close>

datatype RegisteredTool = PlainTool Tool | AgentTool ConfigurableAgentTool

fun asTool :: "RegisteredTool \<Rightarrow> Tool" where
  "asTool (PlainTool t) = t"
| "asTool (AgentTool a) = Tool.truncate a"

record ToolSchema =
  schema_name :: string
  schema_description :: string
  schema_parameters :: jsval

text \<open>The configuration and the hooks of one run. The iteration budget is a number; a
  temperature is only passed on and is a rational number.\<close>

record AgentRunnerConfig =
  apiKey :: string
  modelName :: string
  systemPrompt :: string
  tools :: "RegisteredTool list"
  maxIterations :: jsnumber
  temperature :: "rat option"

record AgentRunnerHooks =
  prepareInitialMessages :: "(ChatMessage list \<Rightarrow> ChatMessage list) option"
  createSuccessResult :: ResultHook
  createErrorResult :: ResultHook

section \<open>The world outside the runner\<close>

text \<open>
  The request of one LLM call. The messages are passed as they stand in the log: the
  provider format is a function of them, so an LLM that is any function of this request
  covers every LLM behind \<^verbatim>\<open>convertToLLMMessages\<close>.
\<close>

record LLMCallRequest =
  req_provider :: string
  req_model :: string
  req_messages :: "ChatMessage list"
  req_systemPrompt :: string
  req_tools :: "ToolSchema list"
  req_temperature :: rat

text \<open>
  The external collaborators. Each effect takes the clock, so that two calls with the
  same arguments may differ. \<open>llm_call\<close> returns \<open>Inl\<close> of what was thrown for anything
  thrown inside the \<^verbatim>\<open>try\<close> block around the call. \<open>llm_parseResponse\<close> is
  \<^verbatim>\<open>LLMClient.parseResponse\<close>, whose file is not among the sources; it is taken to
  return. \<^verbatim>\<open>enhancePromptWithPageContext\<close> (PageInfoManager.ts, not among the sources)
  is awaited outside every \<^verbatim>\<open>try\<close> block; \<open>Inl\<close> is what it rejects with.

  Two functions of the JavaScript engine are parameters as well: \<open>typeErrorMessage v\<close> is
  the message of the \<^verbatim>\<open>TypeError\<close> thrown when the property \<^verbatim>\<open>message\<close> of
  \<open>v\<close> is read and \<open>v\<close> is \<^verbatim>\<open>undefined\<close> or \<^verbatim>\<open>null\<close>, and \<open>numberToString\<close> is
  the decimal text of a finite number that is not a whole number of moderate size.
\<close>

record Env =
  getRegisteredTool :: "string \<Rightarrow> RegisteredTool option"
  llm_call :: "nat \<Rightarrow> LLMCallRequest \<Rightarrow> thrown + UnifiedLLMResponse"
  llm_parseResponse :: "UnifiedLLMResponse \<Rightarrow> ParsedLLMAction"
  randomUUID :: "nat \<Rightarrow> string"
  enhancePromptWithPageContext :: "nat \<Rightarrow> string \<Rightarrow> thrown + string"
  getProviderForModel :: "string \<Rightarrow> string"
  typeErrorMessage :: "jsval \<Rightarrow> string"
  numberToString :: "rat \<Rightarrow> string"

text \<open>The log records which logger call sites were reached, with the values at hand.\<close>

datatype LogEvent =
    IterationStarted string nat jsnumber
  | LLMCalling string nat
  | ToolExecuting string string
  | HandoffInitiated string string
  | HandoffTargetMissing string
  | MaxIterationsReached string jsnumber

record World =
  clock :: nat
  events :: "LogEvent list"

definition tick :: "World \<Rightarrow> World" where
  "tick w = w\<lparr>clock := clock w + 1\<rparr>"

definition emit :: "LogEvent \<Rightarrow> World \<Rightarrow> World" where
  "emit e w = w\<lparr>events := events w @ [e]\<rparr>"

section \<open>AgentRunner\<close>

text \<open>
  The calls to the tracing provider are left out: each of them is wrapped in its own
  \<^verbatim>\<open>try\<close>/\<^verbatim>\<open>catch\<close> or sits inside the \<^verbatim>\<open>try\<close> block of the LLM call, and none
  of them touches the messages or the result.
\<close>

subsection \<open>Numbers and thrown values in a message\<close>

text \<open>A number in a template literal: a whole number below \<^verbatim>\<open>1e21\<close> is printed in
  decimal digits.\<close>

definition numberText :: "Env \<Rightarrow> jsnumber \<Rightarrow> string" where
  "numberText env n =
     (case n of
        Finite r \<Rightarrow>
          if r = of_int \<lfloor>r\<rfloor> \<and> \<bar>r\<bar> < 10 ^ 21 then intToString \<lfloor>r\<rfloor> else numberToString env r
      | PosInfinity \<Rightarrow> ''Infinity''
      | NegInfinity \<Rightarrow> ''-Infinity''
      | NotANumber \<Rightarrow> ''NaN'')"

text \<open>
  The expression \<^verbatim>\<open>error.message || String(error)\<close> of the three \<^verbatim>\<open>catch\<close> blocks.
  For an \<^verbatim>\<open>Error\<close> it is the message or, when the message is empty, what
  \<^verbatim>\<open>String\<close> gives then, the name. For \<^verbatim>\<open>undefined\<close> and \<^verbatim>\<open>null\<close> the read of
  \<^verbatim>\<open>message\<close> throws a \<^verbatim>\<open>TypeError\<close> (\<open>Inl\<close>); for any other value the property is
  read (a primitive has none) and printed when it is truthy.
\<close>

definition messageOrString :: "Env \<Rightarrow> thrown \<Rightarrow> thrown + string" where
  "messageOrString env e =
     (case e of
        ThrownError name message \<Rightarrow> Inr (if message \<noteq> [] then message else name)
      | ThrownValue v \<Rightarrow>
          if nullish v then Inl (ThrownError ''TypeError'' (typeErrorMessage env v))
          else Inr (jsToString (js_or (getProp v ''message'') (JStr (jsToString v)))))"

subsection \<open>Tool map and tool schemas\<close>

definition schemaOf :: "RegisteredTool \<Rightarrow> ToolSchema" where
  "schemaOf t = \<lparr>schema_name = tool_name (asTool t),
                 schema_description = tool_description (asTool t),
                 schema_parameters = tool_schema (asTool t)\<rparr>"

text \<open>\<^verbatim>\<open>new Map(tools.map(tool => [tool.name, tool]))\<close>: a later entry replaces an earlier one.\<close>

fun mapOfTools :: "RegisteredTool list \<Rightarrow> (string \<rightharpoonup> RegisteredTool) \<Rightarrow> (string \<rightharpoonup> RegisteredTool)" where
  "mapOfTools [] m = m"
| "mapOfTools (t # ts) m = mapOfTools ts (m(tool_name (asTool t) \<mapsto> t))"

definition isLLMTriggered :: "HandoffConfig \<Rightarrow> bool" where
  "isLLMTriggered h = (trigger h = None \<or> trigger h = Some LLM_TOOL_CALL)"

definition handoffToolName :: "string \<Rightarrow> string" where
  "handoffToolName target = ''handoff_to_'' @ target"

definition handoffDescription :: "string \<Rightarrow> string \<Rightarrow> string" where
  "handoffDescription target descr =
     ''Handoff the current task to the specialized agent: '' @ target
     @ ''. Use this agent when the task requires '' @ target @ [CHR 0x27]
     @ ''s capabilities. Agent Description: '' @ descr"

text \<open>The loop over \<^verbatim>\<open>executingAgent.config.handoffs\<close> that adds the handoff tools: a
  target that is not registered as an agent is skipped with a warning.\<close>

fun addHandoffTools :: "Env \<Rightarrow> HandoffConfig list
    \<Rightarrow> (string \<rightharpoonup> RegisteredTool) \<times> ToolSchema list
    \<Rightarrow> (string \<rightharpoonup> RegisteredTool) \<times> ToolSchema list" where
  "addHandoffTools env [] acc = acc"
| "addHandoffTools env (h # hs) (toolMap, toolSchemas) =
     (if isLLMTriggered h then
        (case getRegisteredTool env (targetAgentName h) of
           Some (AgentTool targetTool) \<Rightarrow>
             addHandoffTools env hs
               (toolMap(handoffToolName (targetAgentName h) \<mapsto> AgentTool targetTool),
                toolSchemas @ [\<lparr>schema_name = handoffToolName (targetAgentName h),
                                 schema_description =
                                   handoffDescription (targetAgentName h) (tool_description targetTool),
                                 schema_parameters = tool_schema targetTool\<rparr>])
         | _ \<Rightarrow> addHandoffTools env hs (toolMap, toolSchemas))
      else addHandoffTools env hs (toolMap, toolSchemas))"

definition agentHandoffs :: "ConfigurableAgentTool option \<Rightarrow> HandoffConfig list option" where
  "agentHandoffs executingAgent =
     (case executingAgent of None \<Rightarrow> None | Some a \<Rightarrow> cfg_handoffs (config a))"

definition buildTools :: "Env \<Rightarrow> RegisteredTool list \<Rightarrow> ConfigurableAgentTool option
    \<Rightarrow> (string \<rightharpoonup> RegisteredTool) \<times> ToolSchema list" where
  "buildTools env ts executingAgent =
     (case agentHandoffs executingAgent of
        None \<Rightarrow> (mapOfTools ts Map.empty, map schemaOf ts)
      | Some hs \<Rightarrow> addHandoffTools env hs (mapOfTools ts Map.empty, map schemaOf ts))"

subsection \<open>One iteration of the loop\<close>

text \<open>The values that \<^verbatim>\<open>run\<close> fixes before the loop and the loop reads.\<close>

record LoopCtx =
  lc_config :: AgentRunnerConfig
  lc_hooks :: AgentRunnerHooks
  lc_executingAgent :: "ConfigurableAgentTool option"
  lc_args :: jsval
  lc_agentName :: string
  lc_toolMap :: "string \<rightharpoonup> RegisteredTool"
  lc_toolSchemas :: "ToolSchema list"

text \<open>
  How the loop of \<^verbatim>\<open>run\<close> ends: \<^verbatim>\<open>run\<close> settles (\<open>Finished\<close>), or it calls
  \<^verbatim>\<open>executeHandoff\<close>. The two calls differ in where they stand. The call for a
  \<^verbatim>\<open>handoff_to_\<close> tool, \<open>HandoffByToolCall messages llmArgs handoffConfig
  executingAgent\<close>, is awaited inside the \<^verbatim>\<open>try\<close> block around the processing of the
  parsed action; the call after the loop, \<open>HandoffAtMaxIterations messages args
  handoffConfig executingAgent\<close>, is awaited outside every \<^verbatim>\<open>try\<close> block.
\<close>

datatype LoopOutcome =
    Finished RunOutcome
  | HandoffByToolCall "ChatMessage list" jsval HandoffConfig ConfigurableAgentTool
  | HandoffAtMaxIterations "ChatMessage list" jsval HandoffConfig ConfigurableAgentTool

datatype StepOutcome =
    Continue "ChatMessage list"
  | Stop LoopOutcome

definition iterationInfo :: "Env \<Rightarrow> nat \<Rightarrow> jsnumber \<Rightarrow> string" where
  "iterationInfo env iteration maxIter =
     [CHR 0x0A] @ ''## Current Progress'' @ [CHR 0x0A]
     @ ''- You are currently on step '' @ natToString (iteration + 1) @ '' of ''
     @ numberText env maxIter @ '' maximum steps.'' @ [CHR 0x0A]
     @ ''- Focus on making meaningful progress with each step.''"

definition systemErrorMessage :: "string \<Rightarrow> ChatMessage" where
  "systemErrorMessage errorMsg =
     ToolResultMessage (JStr ''system_error'') (JStr errorMsg) True None (Some (JStr errorMsg)) None"

text \<open>The \<^verbatim>\<open>catch\<close> block around the LLM call. It stands inside no other \<^verbatim>\<open>try\<close>
  block: when the read of \<^verbatim>\<open>error.message\<close> throws, \<^verbatim>\<open>run\<close> rejects.\<close>

definition llmCallCaught :: "Env \<Rightarrow> LoopCtx \<Rightarrow> ChatMessage list \<Rightarrow> thrown \<Rightarrow> RunOutcome" where
  "llmCallCaught env ctx messages e =
     (case messageOrString env e of
        Inl typeError \<Rightarrow> Rejected typeError
      | Inr text \<Rightarrow>
          (let errorMsg = ''LLM call failed: '' @ text
           in Resolved (createErrorResult (lc_hooks ctx) errorMsg
                          (messages @ [systemErrorMessage errorMsg]) ERROR)))"

text \<open>The \<^verbatim>\<open>catch\<close> block around the processing of the parsed action, the last of the
  loop body; it stands inside no other \<^verbatim>\<open>try\<close> block either.\<close>

definition loopCaught :: "Env \<Rightarrow> LoopCtx \<Rightarrow> ChatMessage list \<Rightarrow> thrown \<Rightarrow> RunOutcome" where
  "loopCaught env ctx messages e =
     (case messageOrString env e of
        Inl typeError \<Rightarrow> Rejected typeError
      | Inr text \<Rightarrow>
          (let errorMsg = ''Agent loop error: '' @ text
           in Resolved (createErrorResult (lc_hooks ctx) errorMsg
                          (messages @ [systemErrorMessage errorMsg]) ERROR)))"

text \<open>\<^verbatim>\<open>throw new Error(msg)\<close> inside that \<^verbatim>\<open>try\<close> block.\<close>

definition loopError :: "Env \<Rightarrow> LoopCtx \<Rightarrow> ChatMessage list \<Rightarrow> string \<Rightarrow> StepOutcome" where
  "loopError env ctx messages msg =
     Stop (Finished (loopCaught env ctx messages (ThrownError ''Error'' msg)))"

text \<open>The text, the error flag and the data of a regular tool execution, from what
  \<^verbatim>\<open>execute\<close> returned or threw. The \<^verbatim>\<open>catch\<close> block of the execution reads
  \<^verbatim>\<open>err.message\<close>; when that read throws, the \<^verbatim>\<open>TypeError\<close> leaves the block
  (\<open>Inl\<close>).\<close>

definition hasTruthyError :: "jsval \<Rightarrow> bool" where
  "hasTruthyError d = (hasOwnProperty d ''error'' \<and> truthy (getProp d ''error''))"

definition hasSuccessFalse :: "jsval \<Rightarrow> bool" where
  "hasSuccessFalse d = (hasOwnProperty d ''success'' \<and> getProp d ''success'' = JBool False)"

definition stringifyResult :: "jsval \<Rightarrow> jsval" where
  "stringifyResult toolResultData =
     (case toolResultData of JStr s \<Rightarrow> JStr s | _ \<Rightarrow> JSON_stringify_2 toolResultData)"

definition toolOutcome :: "Env \<Rightarrow> thrown + jsval \<Rightarrow> thrown + jsval \<times> bool \<times> jsval" where
  "toolOutcome env r =
     (case r of
        Inl err \<Rightarrow>
          (case messageOrString env err of
             Inl typeError \<Rightarrow> Inl typeError
           | Inr text \<Rightarrow>
               (let toolResultText = JStr (''Error during tool execution: '' @ text)
                in Inr (toolResultText, True, JObj [(''error'', toolResultText)])))
      | Inr toolResultData \<Rightarrow>
          (let toolResultText = stringifyResult toolResultData in
           if isObject toolResultData then
             (if hasTruthyError toolResultData
              then Inr (js_or (getProp toolResultData ''error'') toolResultText, True, toolResultData)
              else if hasSuccessFalse toolResultData
              then Inr (js_or (getProp toolResultData ''error'')
                          (js_or (getProp toolResultData ''message'') toolResultText), True, toolResultData)
              else Inr (toolResultText, False, toolResultData))
           else Inr (toolResultText, False, toolResultData)))"

definition toolResultMessage :: "jsval \<Rightarrow> string \<Rightarrow> jsval \<times> bool \<times> jsval \<Rightarrow> ChatMessage" where
  "toolResultMessage name callId outcome =
     (case outcome of (toolResultText, toolIsError, toolResultData) \<Rightarrow>
        ToolResultMessage name toolResultText toolIsError (Some callId)
          (if toolIsError then Some toolResultText else None)
          (if truthy toolResultData then Some toolResultData else None))"

definition toolMapGet :: "(string \<rightharpoonup> RegisteredTool) \<Rightarrow> jsval \<Rightarrow> RegisteredTool option" where
  "toolMapGet m key = (case key of JStr s \<Rightarrow> m s | _ \<Rightarrow> None)"

definition findLLMHandoffConfig :: "ConfigurableAgentTool option \<Rightarrow> string
    \<Rightarrow> (ConfigurableAgentTool \<times> HandoffConfig) option" where
  "findLLMHandoffConfig executingAgent targetName =
     (case executingAgent of
        None \<Rightarrow> None
      | Some a \<Rightarrow>
         (case cfg_handoffs (config a) of
            None \<Rightarrow> None
          | Some hs \<Rightarrow>
             map_option (Pair a) (find (\<lambda>h. targetAgentName h = targetName \<and> isLLMTriggered h) hs)))"

text \<open>The test \<^verbatim>\<open>toolName.startsWith('handoff_to_') && toolToExecute instanceof
  ConfigurableAgentTool\<close>.\<close>

definition handoffTarget :: "string \<Rightarrow> RegisteredTool \<Rightarrow> ConfigurableAgentTool option" where
  "handoffTarget name toolToExecute =
     (case toolToExecute of
        AgentTool a \<Rightarrow> if startsWith name ''handoff_to_'' then Some a else None
      | PlainTool t \<Rightarrow> None)"

definition processToolCall :: "Env \<Rightarrow> LoopCtx \<Rightarrow> ChatMessage list \<Rightarrow> UnifiedLLMResponse
    \<Rightarrow> jsval \<Rightarrow> jsval \<Rightarrow> World \<Rightarrow> StepOutcome \<times> World" where
  "processToolCall env ctx messages llmResponse name args w =
     (let toolCallId = randomUUID env (clock w);
          w1 = tick w;
          messages1 = messages @ [ModelChatMessage ActionTool name args (Some toolCallId) None False
                                    (resp_reasoning llmResponse)]
      in case toolMapGet (lc_toolMap ctx) name of
           None \<Rightarrow> (loopError env ctx messages1 (''Agent requested unknown tool: '' @ jsToString name), w1)
         | Some toolToExecute \<Rightarrow>
            (case handoffTarget (jsToString name) toolToExecute of
               Some targetAgentTool \<Rightarrow>
                 (case findLLMHandoffConfig (lc_executingAgent ctx) (tool_name targetAgentTool) of
                    None \<Rightarrow>
                      (loopError env ctx messages1
                         (''Internal error: No matching '' @ [CHR 0x27] @ ''llm_tool_call'' @ [CHR 0x27]
                          @ '' handoff config found for '' @ jsToString name), w1)
                  | Some (executingAgent, handoffConfig) \<Rightarrow>
                      (Stop (HandoffByToolCall messages1 args handoffConfig executingAgent), w1))
             | None \<Rightarrow>
                 (let w2 = emit (ToolExecuting (lc_agentName ctx) (tool_name (asTool toolToExecute))) w1
                  in case toolOutcome env (tool_execute (asTool toolToExecute) (clock w2) args) of
                       Inl typeError \<Rightarrow> (Stop (Finished (loopCaught env ctx messages1 typeError)), tick w2)
                     | Inr outcome \<Rightarrow>
                         (Continue (messages1 @ [toolResultMessage name toolCallId outcome]), tick w2))))"

definition temperatureOrZero :: "rat option \<Rightarrow> rat" where
  "temperatureOrZero t = (case t of None \<Rightarrow> 0 | Some x \<Rightarrow> x)"

definition llmRequest :: "Env \<Rightarrow> LoopCtx \<Rightarrow> ChatMessage list \<Rightarrow> string \<Rightarrow> LLMCallRequest" where
  "llmRequest env ctx messages currentSystemPrompt =
     \<lparr>req_provider = getProviderForModel env (modelName (lc_config ctx)),
      req_model = modelName (lc_config ctx),
      req_messages = messages,
      req_systemPrompt = currentSystemPrompt,
      req_tools = lc_toolSchemas ctx,
      req_temperature = temperatureOrZero (temperature (lc_config ctx))\<rparr>"

definition finalMessage :: "string \<Rightarrow> UnifiedLLMResponse \<Rightarrow> ChatMessage" where
  "finalMessage ans llmResponse =
     ModelChatMessage ActionFinal JUndefined JUndefined None (Some ans) True (resp_reasoning llmResponse)"

text \<open>The prompt of the iteration before it is enhanced.\<close>

definition iterationPrompt :: "Env \<Rightarrow> LoopCtx \<Rightarrow> nat \<Rightarrow> string" where
  "iterationPrompt env ctx iteration =
     systemPrompt (lc_config ctx) @ iterationInfo env iteration (maxIterations (lc_config ctx))"

text \<open>The world when the LLM is called in the iteration: the start of the iteration is
  logged, the prompt has been enhanced (one moment passes), the call is logged.\<close>

definition beginIteration :: "LoopCtx \<Rightarrow> nat \<Rightarrow> ChatMessage list \<Rightarrow> World \<Rightarrow> World" where
  "beginIteration ctx iteration messages w =
     emit (LLMCalling (lc_agentName ctx) (length messages))
       (tick (emit (IterationStarted (lc_agentName ctx) (iteration + 1) (maxIterations (lc_config ctx))) w))"

text \<open>The body of the loop at \<open>iteration\<close>: the prompt is enhanced at the clock of \<open>w\<close>,
  the LLM is called at the next moment.\<close>

definition iterationBody :: "Env \<Rightarrow> LoopCtx \<Rightarrow> nat \<Rightarrow> ChatMessage list \<Rightarrow> World \<Rightarrow> StepOutcome \<times> World" where
  "iterationBody env ctx iteration messages w =
     (case enhancePromptWithPageContext env (clock w) (iterationPrompt env ctx iteration) of
        Inl e \<Rightarrow>
          (Stop (Finished (Rejected e)),
           tick (emit (IterationStarted (lc_agentName ctx) (iteration + 1) (maxIterations (lc_config ctx))) w))
      | Inr currentSystemPrompt \<Rightarrow>
          (let w2 = beginIteration ctx iteration messages w
           in case llm_call env (clock w2) (llmRequest env ctx messages currentSystemPrompt) of
                Inl e \<Rightarrow> (Stop (Finished (llmCallCaught env ctx messages e)), tick w2)
              | Inr llmResponse \<Rightarrow>
                  (case llm_parseResponse env llmResponse of
                     tool_call name args \<Rightarrow> processToolCall env ctx messages llmResponse name args (tick w2)
                   | final_answer ans \<Rightarrow>
                       (Stop (Finished (Resolved (createSuccessResult (lc_hooks ctx) ans
                                (messages @ [finalMessage ans llmResponse]) FINAL_ANSWER))), tick w2)
                   | error_action e \<Rightarrow> (loopError env ctx messages e, tick w2))))"

subsection \<open>The loop\<close>

text \<open>After the loop: a handoff rule with the trigger \<^verbatim>\<open>'max_iterations'\<close>, if the
  executing agent has one, else the error result with the reason \<^verbatim>\<open>'max_iterations'\<close>.\<close>

definition findMaxIterHandoffConfig :: "ConfigurableAgentTool option
    \<Rightarrow> (ConfigurableAgentTool \<times> HandoffConfig) option" where
  "findMaxIterHandoffConfig executingAgent =
     (case executingAgent of
        None \<Rightarrow> None
      | Some a \<Rightarrow>
         (case cfg_handoffs (config a) of
            None \<Rightarrow> None
          | Some hs \<Rightarrow> map_option (Pair a) (find (\<lambda>h. trigger h = Some MAX_ITERATIONS_TRIGGER) hs)))"

definition maxIterationsMessage :: "Env \<Rightarrow> jsnumber \<Rightarrow> string" where
  "maxIterationsMessage env n = ''Agent reached maximum iterations ('' @ numberText env n @ '')''"

definition afterLoop :: "Env \<Rightarrow> LoopCtx \<Rightarrow> ChatMessage list \<Rightarrow> World \<Rightarrow> LoopOutcome \<times> World" where
  "afterLoop env ctx messages w =
     (let w1 = emit (MaxIterationsReached (lc_agentName ctx) (maxIterations (lc_config ctx))) w
      in case findMaxIterHandoffConfig (lc_executingAgent ctx) of
           Some (executingAgent, maxIterHandoffConfig) \<Rightarrow>
             (HandoffAtMaxIterations messages (lc_args ctx) maxIterHandoffConfig executingAgent, w1)
         | None \<Rightarrow>
             (Finished (Resolved (createErrorResult (lc_hooks ctx)
                                    (maxIterationsMessage env (maxIterations (lc_config ctx)))
                                    messages MAX_ITERATIONS)), w1))"

text \<open>
  \<^verbatim>\<open>for (iteration = 0; iteration < maxIterations; iteration++)\<close>. With the budget
  \<^verbatim>\<open>Infinity\<close> nothing bounds the loop, so it takes a fuel, the number of bodies it may
  still enter; \<open>None\<close> is a loop that needs more.
\<close>

fun agentLoop :: "nat \<Rightarrow> Env \<Rightarrow> LoopCtx \<Rightarrow> nat \<Rightarrow> ChatMessage list \<Rightarrow> World
    \<Rightarrow> (LoopOutcome \<times> World) option" where
  "agentLoop fuel env ctx iteration messages w =
     (if lessThanNumber iteration (maxIterations (lc_config ctx)) then
        (case fuel of
           0 \<Rightarrow> None
         | Suc fuel' \<Rightarrow>
            (case iterationBody env ctx iteration messages w of
               (Continue messages', w') \<Rightarrow> agentLoop fuel' env ctx (iteration + 1) messages' w'
             | (Stop outcome, w') \<Rightarrow> Some (outcome, w')))
      else Some (afterLoop env ctx messages w))"

declare agentLoop.simps [simp del]

subsection \<open>executeHandoff and run\<close>

text \<open>The filter of \<^verbatim>\<open>executeHandoff\<close> on the messages, for a non-empty
  \<^verbatim>\<open>includeToolResults\<close>.\<close>

definition includesName :: "string list \<Rightarrow> jsval \<Rightarrow> bool" where
  "includesName names v = (case v of JStr s \<Rightarrow> s \<in> set names | _ \<Rightarrow> False)"

fun handoffFilter :: "string list \<Rightarrow> ChatMessage \<Rightarrow> bool" where
  "handoffFilter names (UserChatMessage t) = True"
| "handoffFilter names (ModelChatMessage act name args callId ans fin rs) =
     (if act = ActionFinal then True
      else if act = ActionTool \<and> truthy name then includesName names name
      else False)"
| "handoffFilter names (ToolResultMessage name txt isErr callId err dat) =
     (\<not> isErr \<and> truthy name \<and> includesName names name)"

definition handoffMessagesOf :: "HandoffConfig \<Rightarrow> ChatMessage list \<Rightarrow> ChatMessage list" where
  "handoffMessagesOf handoffConfig currentMessages =
     (case includeToolResults handoffConfig of
        None \<Rightarrow> currentMessages
      | Some names \<Rightarrow>
          if length names > 0 then filter (handoffFilter names) currentMessages
          else currentMessages)"

definition targetModelName :: "AgentToolConfig \<Rightarrow> string \<Rightarrow> string" where
  "targetModelName targetConfig defaultModelName =
     (case cfg_modelName targetConfig of
        Some (ModelNameFunction s) \<Rightarrow> s
      | Some (ModelNameString s) \<Rightarrow> if s = [] then defaultModelName else s
      | None \<Rightarrow> defaultModelName)"

text \<open>\<^verbatim>\<open>targetConfig.maxIterations || defaultMaxIterations\<close>.\<close>

definition targetMaxIterations :: "AgentToolConfig \<Rightarrow> jsnumber \<Rightarrow> jsnumber" where
  "targetMaxIterations targetConfig defaultMaxIterations =
     (case cfg_maxIterations targetConfig of
        Some n \<Rightarrow> if numberIsTruthy n then n else defaultMaxIterations
      | None \<Rightarrow> defaultMaxIterations)"

definition targetRunnerConfig :: "Env \<Rightarrow> AgentToolConfig \<Rightarrow> string \<Rightarrow> string \<Rightarrow> string \<Rightarrow> jsnumber \<Rightarrow> rat
    \<Rightarrow> AgentRunnerConfig" where
  "targetRunnerConfig env targetConfig key enhancedSystemPrompt defaultModelName defaultMaxIterations
      defaultTemperature =
     \<lparr>apiKey = key,
      modelName = targetModelName targetConfig defaultModelName,
      systemPrompt = enhancedSystemPrompt,
      tools = List.map_filter (getRegisteredTool env) (cfg_tools targetConfig),
      maxIterations = targetMaxIterations targetConfig defaultMaxIterations,
      temperature = Some (case cfg_temperature targetConfig of None \<Rightarrow> defaultTemperature | Some t \<Rightarrow> t)\<rparr>"

definition targetRunnerHooks :: "AgentToolConfig \<Rightarrow> ResultHook \<Rightarrow> ResultHook \<Rightarrow> AgentRunnerHooks" where
  "targetRunnerHooks targetConfig defaultCreateSuccessResult defaultCreateErrorResult =
     \<lparr>prepareInitialMessages = None,
      createSuccessResult =
        (case cfg_createSuccessResult targetConfig of Some f \<Rightarrow> f | None \<Rightarrow> defaultCreateSuccessResult),
      createErrorResult =
        (case cfg_createErrorResult targetConfig of Some f \<Rightarrow> f | None \<Rightarrow> defaultCreateErrorResult)\<rparr>"

definition reasonOrHandedOff :: "AgentRunTerminationReason option \<Rightarrow> AgentRunTerminationReason option" where
  "reasonOrHandedOff r = (case r of None \<Rightarrow> Some HANDED_OFF | Some x \<Rightarrow> Some x)"

text \<open>What \<^verbatim>\<open>executeHandoff\<close> returns from the result of the target's run.\<close>

definition handoffReturn :: "AgentToolConfig \<Rightarrow> ChatMessage list \<Rightarrow> ConfigurableAgentResult
    \<Rightarrow> ConfigurableAgentResult" where
  "handoffReturn targetConfig currentMessages handoffResult =
     (if cfg_includeIntermediateStepsOnReturn targetConfig = Some True then
        handoffResult
          \<lparr>intermediateSteps :=
             Some (currentMessages
                   @ (case intermediateSteps handoffResult of None \<Rightarrow> [] | Some steps \<Rightarrow> steps)),
           terminationReason := reasonOrHandedOff (terminationReason handoffResult)\<rparr>
      else
        handoffResult
          \<lparr>terminationReason := reasonOrHandedOff (terminationReason handoffResult),
           intermediateSteps := None\<rparr>)"

definition targetNotFoundMessage :: "string \<Rightarrow> string" where
  "targetNotFoundMessage target =
     ''Handoff target '' @ [CHR 0x27] @ target @ [CHR 0x27]
     @ '' not found or is not a ConfigurableAgentTool.''"

definition agentNameOf :: "ConfigurableAgentTool option \<Rightarrow> string" where
  "agentNameOf executingAgent =
     (case executingAgent of
        None \<Rightarrow> ''Unknown''
      | Some a \<Rightarrow> if tool_name a = [] then ''Unknown'' else tool_name a)"

definition loopCtxOf :: "Env \<Rightarrow> jsval \<Rightarrow> AgentRunnerConfig \<Rightarrow> AgentRunnerHooks
    \<Rightarrow> ConfigurableAgentTool option \<Rightarrow> LoopCtx" where
  "loopCtxOf env args cfg hooks executingAgent =
     (case buildTools env (tools cfg) executingAgent of
        (toolMap, toolSchemas) \<Rightarrow>
          \<lparr>lc_config = cfg, lc_hooks = hooks, lc_executingAgent = executingAgent, lc_args = args,
           lc_agentName = agentNameOf executingAgent,
           lc_toolMap = toolMap, lc_toolSchemas = toolSchemas\<rparr>)"

text \<open>
  \<^verbatim>\<open>run\<close> and \<^verbatim>\<open>executeHandoff\<close> call each other, and nothing bounds the chain of
  handoffs, so both take the fuel: it bounds the bodies that the loop of the run may enter
  and the handoffs that may still start a target agent. \<open>None\<close> is a run that needs more.
  A rejection of the handoff for a \<^verbatim>\<open>handoff_to_\<close> tool is caught by the \<^verbatim>\<open>catch\<close>
  block of the loop body; the handoff after the loop is returned as it settles.
\<close>

fun run :: "nat \<Rightarrow> Env \<Rightarrow> ChatMessage list \<Rightarrow> jsval \<Rightarrow> AgentRunnerConfig \<Rightarrow> AgentRunnerHooks
      \<Rightarrow> ConfigurableAgentTool option \<Rightarrow> World \<Rightarrow> (RunOutcome \<times> World) option"
  and executeHandoff :: "nat \<Rightarrow> Env \<Rightarrow> ChatMessage list \<Rightarrow> jsval \<Rightarrow> HandoffConfig
      \<Rightarrow> ConfigurableAgentTool \<Rightarrow> string \<Rightarrow> string \<Rightarrow> jsnumber \<Rightarrow> rat \<Rightarrow> ResultHook \<Rightarrow> ResultHook
      \<Rightarrow> jsval option \<Rightarrow> World \<Rightarrow> (RunOutcome \<times> World) option"
where
  "run fuel env initialMessages args cfg hooks executingAgent w =
     (let messages = (case prepareInitialMessages hooks of
                        Some f \<Rightarrow> f initialMessages
                      | None \<Rightarrow> initialMessages);
          ctx = loopCtxOf env args cfg hooks executingAgent
      in case agentLoop fuel env ctx 0 messages w of
           None \<Rightarrow> None
         | Some (Finished outcome, w') \<Rightarrow> Some (outcome, w')
         | Some (HandoffByToolCall currentMessages llmArgs handoffConfig agent, w') \<Rightarrow>
             (case executeHandoff fuel env currentMessages llmArgs handoffConfig agent
                     (apiKey cfg) (modelName cfg) (maxIterations cfg) (temperatureOrZero (temperature cfg))
                     (createSuccessResult hooks) (createErrorResult hooks) (Some llmArgs) w' of
                None \<Rightarrow> None
              | Some (Resolved handoffResult, w'') \<Rightarrow> Some (Resolved handoffResult, w'')
              | Some (Rejected e, w'') \<Rightarrow> Some (loopCaught env ctx currentMessages e, w''))
         | Some (HandoffAtMaxIterations currentMessages originalArgs handoffConfig agent, w') \<Rightarrow>
             executeHandoff fuel env currentMessages originalArgs handoffConfig agent
               (apiKey cfg) (modelName cfg) (maxIterations cfg) (temperatureOrZero (temperature cfg))
               (createSuccessResult hooks) (createErrorResult hooks) None w')"
| "executeHandoff fuel env currentMessages originalArgs handoffConfig executingAgent key
       defaultModelName defaultMaxIterations defaultTemperature
       defaultCreateSuccessResult defaultCreateErrorResult llmToolArgs w =
     (case getRegisteredTool env (targetAgentName handoffConfig) of
        Some (AgentTool targetAgentTool) \<Rightarrow>
          (let w1 = emit (HandoffInitiated (tool_name executingAgent) (tool_name targetAgentTool)) w;
               targetConfig = config targetAgentTool;
               handoffMessages = handoffMessagesOf handoffConfig currentMessages;
               w2 = tick w1;
               targetAgentArgs = (case llmToolArgs of
                                    None \<Rightarrow> originalArgs
                                  | Some a \<Rightarrow> if nullish a then originalArgs else a)
           in case enhancePromptWithPageContext env (clock w1) (cfg_systemPrompt targetConfig) of
                Inl e \<Rightarrow> Some (Rejected e, w2)
              | Inr enhancedSystemPrompt \<Rightarrow>
                 (case fuel of
                    0 \<Rightarrow> None
                  | Suc fuel' \<Rightarrow>
                     (case run fuel' env handoffMessages targetAgentArgs
                             (targetRunnerConfig env targetConfig key enhancedSystemPrompt defaultModelName
                                defaultMaxIterations defaultTemperature)
                             (targetRunnerHooks targetConfig defaultCreateSuccessResult defaultCreateErrorResult)
                             (Some targetAgentTool) w2 of
                        None \<Rightarrow> None
                      | Some (Resolved handoffResult, w3) \<Rightarrow>
                          Some (Resolved (handoffReturn targetConfig currentMessages handoffResult), w3)
                      | Some (Rejected e, w3) \<Rightarrow> Some (Rejected e, w3))))
      | _ \<Rightarrow>
          Some (Resolved (defaultCreateErrorResult (targetNotFoundMessage (targetAgentName handoffConfig))
                            currentMessages ERROR),
                emit (HandoffTargetMissing (targetAgentName handoffConfig)) w))"

declare run.simps [simp del] executeHandoff.simps [simp del]

section \<open>Properties of a message log\<close>

fun isModelMessage :: "ChatMessage \<Rightarrow> bool" where
  "isModelMessage (ModelChatMessage act name args callId ans fin rs) = True"
| "isModelMessage m = False"

fun isModelTool :: "ChatMessage \<Rightarrow> bool" where
  "isModelTool (ModelChatMessage act name args callId ans fin rs) = (act = ActionTool)"
| "isModelTool m = False"

fun isModelFinal :: "ChatMessage \<Rightarrow> bool" where
  "isModelFinal (ModelChatMessage act name args callId ans fin rs) = (act = ActionFinal)"
| "isModelFinal m = False"

fun isToolResult :: "ChatMessage \<Rightarrow> bool" where
  "isToolResult (ToolResultMessage name txt isErr callId err dat) = True"
| "isToolResult m = False"

fun isUserMessage :: "ChatMessage \<Rightarrow> bool" where
  "isUserMessage (UserChatMessage t) = True"
| "isUserMessage m = False"

fun callIdOf :: "ChatMessage \<Rightarrow> string option" where
  "callIdOf (UserChatMessage t) = None"
| "callIdOf (ModelChatMessage act name args callId ans fin rs) = callId"
| "callIdOf (ToolResultMessage name txt isErr callId err dat) = callId"

text \<open>\<open>r\<close> is a tool result that carries the \<^verbatim>\<open>toolCallId\<close> of the tool call \<open>c\<close>.\<close>

definition answersTo :: "ChatMessage \<Rightarrow> ChatMessage \<Rightarrow> bool" where
  "answersTo c r = (isToolResult r \<and> callIdOf r \<noteq> None \<and> callIdOf r = callIdOf c)"

text \<open>Every tool call of the log is followed, before the next MODEL message, by exactly
  one tool result with its \<^verbatim>\<open>toolCallId\<close>.\<close>

fun toolCallsAnswered :: "ChatMessage list \<Rightarrow> bool" where
  "toolCallsAnswered [] = True"
| "toolCallsAnswered (m # rest) =
     ((isModelTool m \<longrightarrow>
         length (filter (answersTo m) (takeWhile (\<lambda>x. \<not> isModelMessage x) rest)) = 1)
      \<and> toolCallsAnswered rest)"

text \<open>Every tool result of the log has, among the messages before it (\<open>before\<close> and the
  part of the log already passed), a tool call with its \<^verbatim>\<open>toolCallId\<close>.\<close>

fun toolResultsPreceded :: "ChatMessage list \<Rightarrow> ChatMessage list \<Rightarrow> bool" where
  "toolResultsPreceded before [] = True"
| "toolResultsPreceded before (m # rest) =
     ((isToolResult m \<longrightarrow> list_ex (\<lambda>c. isModelTool c \<and> answersTo c m) before)
      \<and> toolResultsPreceded (before @ [m]) rest)"

definition toolCallsPaired :: "ChatMessage list \<Rightarrow> bool" where
  "toolCallsPaired msgs = (toolCallsAnswered msgs \<and> toolResultsPreceded [] msgs)"

text \<open>How many times the body of a loop was entered, according to the log of events.\<close>

fun isIterationStarted :: "LogEvent \<Rightarrow> bool" where
  "isIterationStarted (IterationStarted a i n) = True"
| "isIterationStarted e = False"

definition iterationsStarted :: "World \<Rightarrow> nat" where
  "iterationsStarted w = length (filter isIterationStarted (events w))"

section \<open>The sanitization in the test scripts of the repository\<close>

text \<open>\<^verbatim>\<open>sanitizeToolResultForText\<close> of test_sanitization.js: a shallow copy of an object
  without its \<^verbatim>\<open>imageData\<close> property (the spread of an array is the object of its
  indices); any other value is returned as it is.\<close>

definition sanitizeToolResultForText :: "jsval \<Rightarrow> jsval" where
  "sanitizeToolResultForText toolResultData =
     (case toolResultData of
        JObj kvs \<Rightarrow> JObj (filter (\<lambda>kv. fst kv \<noteq> ''imageData'') kvs)
      | JArr xs \<Rightarrow> JObj (zip (map natToString [0 ..< length xs]) xs)
      | _ \<Rightarrow> toolResultData)"

section \<open>Iterations that are ordinary tool calls\<close>

text \<open>
  The iteration that starts in this state is an ordinary tool call: the prompt is
  enhanced, the LLM call returns, the parsed action is the call of a tool of the tool map
  that is not taken as a handoff, and the tool returns, or throws something other than
  \<^verbatim>\<open>undefined\<close> and \<^verbatim>\<open>null\<close>.
\<close>

definition ordinaryToolCall :: "Env \<Rightarrow> LoopCtx \<Rightarrow> nat \<Rightarrow> ChatMessage list \<Rightarrow> World \<Rightarrow> bool" where
  "ordinaryToolCall env ctx iteration messages w =
     (case enhancePromptWithPageContext env (clock w) (iterationPrompt env ctx iteration) of
        Inl e \<Rightarrow> False
      | Inr currentSystemPrompt \<Rightarrow>
         (case llm_call env (clock w + 1) (llmRequest env ctx messages currentSystemPrompt) of
            Inl e \<Rightarrow> False
          | Inr llmResponse \<Rightarrow>
             (case llm_parseResponse env llmResponse of
                tool_call name args \<Rightarrow>
                  (case toolMapGet (lc_toolMap ctx) name of
                     None \<Rightarrow> False
                   | Some toolToExecute \<Rightarrow>
                       handoffTarget (jsToString name) toolToExecute = None
                       \<and> (case tool_execute (asTool toolToExecute) (clock w + 3) args of
                            Inl (ThrownValue v) \<Rightarrow> \<not> nullish v
                          | _ \<Rightarrow> True))
              | _ \<Rightarrow> False)))"

text \<open>The next \<open>n\<close> iterations of the loop, from this state on, are ordinary tool calls.\<close>

fun ordinaryIterations :: "nat \<Rightarrow> Env \<Rightarrow> LoopCtx \<Rightarrow> nat \<Rightarrow> ChatMessage list \<Rightarrow> World \<Rightarrow> bool" where
  "ordinaryIterations 0 env ctx iteration messages w = True"
| "ordinaryIterations (Suc n) env ctx iteration messages w =
     (ordinaryToolCall env ctx iteration messages w
      \<and> (case iterationBody env ctx iteration messages w of
           (Continue messages', w') \<Rightarrow> ordinaryIterations n env ctx (iteration + 1) messages' w'
         | (Stop outcome, w') \<Rightarrow> False))"

section \<open>Example configurations\<close>

text \<open>
  Concrete collaborators for the examples below. \<open>sampleJsonParse\<close> is the table of
  \<^verbatim>\<open>JSON.parse\<close> on the three texts the examples use; the sample hooks record their
  arguments in the result. The message of the \<^verbatim>\<open>TypeError\<close> is the one of V8, and
  \<open>sampleNumberToString\<close> is the table of the one number with a fraction that the
  examples use.
\<close>

definition sampleJsonParse :: "string \<Rightarrow> jsval option" where
  \<open>sampleJsonParse = map_of
    [(''{"action":"tool","toolName":"search","toolArgs":{"q":"x"}}'',
        JObj [(''action'', JStr ''tool''), (''toolName'', JStr ''search''), (''toolArgs'', JObj [(''q'', JStr ''x'')])]),
     ('' {"action":"tool","toolName":"search"}'',
        JObj [(''action'', JStr ''tool''), (''toolName'', JStr ''search'')]),
     (''{"action": "tool", "toolName": "search"}'',
        JObj [(''action'', JStr ''tool''), (''toolName'', JStr ''search'')])]\<close>

definition sampleCreateSuccessResult :: ResultHook where
  "sampleCreateSuccessResult out steps reason =
     \<lparr>success = True, res_output = Some out, res_error = None,
      intermediateSteps = Some steps, terminationReason = Some reason\<rparr>"

definition sampleCreateErrorResult :: ResultHook where
  "sampleCreateErrorResult err steps reason =
     \<lparr>success = False, res_output = None, res_error = Some err,
      intermediateSteps = Some steps, terminationReason = Some reason\<rparr>"

definition sampleHooks :: AgentRunnerHooks where
  "sampleHooks = \<lparr>prepareInitialMessages = None,
                  createSuccessResult = sampleCreateSuccessResult,
                  createErrorResult = sampleCreateErrorResult\<rparr>"

definition sampleTypeErrorMessage :: "jsval \<Rightarrow> string" where
  "sampleTypeErrorMessage v =
     ''Cannot read properties of '' @ jsToString v @ '' (reading '' @ [CHR 0x27] @ ''message''
     @ [CHR 0x27] @ '')''"

definition sampleNumberToString :: "rat \<Rightarrow> string" where
  "sampleNumberToString r = (if r = 5 / 2 then ''2.5'' else [])"

definition world0 :: World where
  "world0 = \<lparr>clock = 0, events = []\<rparr>"

definition functionCallResponse :: "string \<Rightarrow> jsval \<Rightarrow> UnifiedLLMResponse" where
  "functionCallResponse n a =
     \<lparr>resp_text = None, resp_functionCall = Some \<lparr>fc_name = n, fc_arguments = a\<rparr>, resp_reasoning = None\<rparr>"

definition textResponse :: "string \<Rightarrow> UnifiedLLMResponse" where
  "textResponse t = \<lparr>resp_text = Some t, resp_functionCall = None, resp_reasoning = None\<rparr>"

definition constantTool :: "string \<Rightarrow> thrown + jsval \<Rightarrow> Tool" where
  "constantTool n r = \<lparr>tool_name = n, tool_description = [], tool_schema = JObj [], tool_execute = (\<lambda>c a. r)\<rparr>"

definition sampleEnv :: "(string \<rightharpoonup> RegisteredTool) \<Rightarrow> (nat \<Rightarrow> LLMCallRequest \<Rightarrow> thrown + UnifiedLLMResponse) \<Rightarrow> Env" where
  "sampleEnv registry llm =
     \<lparr>getRegisteredTool = registry, llm_call = llm, llm_parseResponse = parseResponse sampleJsonParse,
      randomUUID = (\<lambda>c. ''uuid-'' @ natToString c),
      enhancePromptWithPageContext = (\<lambda>c p. Inr p),
      getProviderForModel = (\<lambda>m. ''openai''),
      typeErrorMessage = sampleTypeErrorMessage,
      numberToString = sampleNumberToString\<rparr>"

definition sampleConfig :: "RegisteredTool list \<Rightarrow> jsnumber \<Rightarrow> AgentRunnerConfig" where
  "sampleConfig ts n = \<lparr>apiKey = ''key'', modelName = ''model'', systemPrompt = ''You are an agent.'',
                        tools = ts, maxIterations = n, temperature = None\<rparr>"

definition sampleAgent :: "string \<Rightarrow> HandoffConfig list option \<Rightarrow> bool option \<Rightarrow> ConfigurableAgentTool" where
  "sampleAgent n hs flag =
     \<lparr>tool_name = n, tool_description = [], tool_schema = JObj [], tool_execute = (\<lambda>c a. Inr JNull),
      config = \<lparr>cfg_systemPrompt = ''You are '' @ n, cfg_tools = [], cfg_handoffs = hs, cfg_modelName = None,
                cfg_maxIterations = None, cfg_temperature = None,
                cfg_includeIntermediateStepsOnReturn = flag,
                cfg_createSuccessResult = None, cfg_createErrorResult = None\<rparr>\<rparr>"

text \<open>An LLM call that throws an \<^verbatim>\<open>Error\<close>, and one that rejects with
  \<^verbatim>\<open>undefined\<close>.\<close>

definition failingLLM :: "nat \<Rightarrow> LLMCallRequest \<Rightarrow> thrown + UnifiedLLMResponse" where
  "failingLLM c req = Inl (ThrownError ''Error'' ''timeout'')"

definition rejectingLLM :: "nat \<Rightarrow> LLMCallRequest \<Rightarrow> thrown + UnifiedLLMResponse" where
  "rejectingLLM c req = Inl (ThrownValue JUndefined)"

definition answeringLLM :: "string \<Rightarrow> nat \<Rightarrow> LLMCallRequest \<Rightarrow> thrown + UnifiedLLMResponse" where
  "answeringLLM ans c req = Inr (textResponse ans)"

definition callingLLM :: "string \<Rightarrow> nat \<Rightarrow> LLMCallRequest \<Rightarrow> thrown + UnifiedLLMResponse" where
  "callingLLM n c req = Inr (functionCallResponse n (JObj []))"

definition callThenAnswerLLM :: "string \<Rightarrow> string \<Rightarrow> nat \<Rightarrow> LLMCallRequest \<Rightarrow> thrown + UnifiedLLMResponse" where
  "callThenAnswerLLM n ans c req =
     (if length (req_messages req) \<le> 1 then Inr (functionCallResponse n (JObj [])) else Inr (textResponse ans))"

definition handoffToB :: HandoffConfig where
  "handoffToB = \<lparr>targetAgentName = ''B'', trigger = None, includeToolResults = None\<rparr>"

definition maxIterationsToB :: HandoffConfig where
  "maxIterationsToB =
     \<lparr>targetAgentName = ''B'', trigger = Some MAX_ITERATIONS_TRIGGER, includeToolResults = None\<rparr>"

text \<open>A registry that holds the agent B alone, with the given
  \<^verbatim>\<open>includeIntermediateStepsOnReturn\<close>, and an LLM that answers at once.\<close>

definition envWithB :: "bool option \<Rightarrow> Env" where
  "envWithB flag = sampleEnv [''B'' \<mapsto> AgentTool (sampleAgent ''B'' None flag)] (answeringLLM ''done'')"

definition imageResult :: jsval where
  "imageResult = JObj [(''imageData'', JStr ''data:image/png;base64,iVBORw0KGgo=''),
                       (''xpath'', JStr ''//button'')]"

definition calcTool :: Tool where
  "calcTool = constantTool ''calc'' (Inr (JObj [(''result'', JNum 4)]))"

definition errorTool :: Tool where
  "errorTool = constantTool ''noop'' (Inr (JObj [(''error'', JStr ''x'')]))"

text \<open>A tool that rejects with \<^verbatim>\<open>undefined\<close> (\<^verbatim>\<open>Promise.reject()\<close>).\<close>

definition rejectingTool :: Tool where
  "rejectingTool = constantTool ''noop'' (Inl (ThrownValue JUndefined))"

definition calcEnv :: Env where
  "calcEnv = sampleEnv Map.empty (callThenAnswerLLM ''calc'' ''4'')"

definition noopEnv :: Env where
  "noopEnv = sampleEnv Map.empty (callingLLM ''noop'')"

definition failingEnv :: Env where
  "failingEnv = sampleEnv Map.empty failingLLM"

definition rejectingEnv :: Env where
  "rejectingEnv = sampleEnv Map.empty rejectingLLM"

definition answeringEnv :: Env where
  "answeringEnv = sampleEnv Map.empty (answeringLLM ''4'')"

text \<open>An LLM that calls \<^verbatim>\<open>handoff_to_B\<close>: with an empty registry, and with the agent
  B registered (B is then asked with two messages and answers).\<close>

definition handingOffEnv :: Env where
  "handingOffEnv = sampleEnv Map.empty (callingLLM ''handoff_to_B'')"

definition handingOffEnvWithB :: Env where
  "handingOffEnvWithB =
     sampleEnv [''B'' \<mapsto> AgentTool (sampleAgent ''B'' None (Some True))]
       (callThenAnswerLLM ''handoff_to_B'' ''done'')"


definition agentA :: ConfigurableAgentTool where
  "agentA = sampleAgent ''A'' (Some [handoffToB]) None"

definition agentWithMaxIterationsRule :: ConfigurableAgentTool where
  "agentWithMaxIterationsRule = sampleAgent ''A'' (Some [handoffToB, maxIterationsToB]) None"

definition imageTool :: Tool where
  "imageTool = constantTool ''perform_action'' (Inr imageResult)"

definition imageEnv :: Env where
  "imageEnv = sampleEnv Map.empty (callThenAnswerLLM ''perform_action'' ''done'')"

section \<open>Response interpretation: the order of the cases\<close>

lemma parseResponse_functionCall:
  "parseResponse P (r\<lparr>resp_functionCall := Some fc\<rparr>) = tool_call (JStr (fc_name fc)) (fc_arguments fc)"
  by (simp add: parseResponse_def)

lemma getProp_nullish: "nullish j \<Longrightarrow> getProp j k = JUndefined"
  by (cases j) simp_all

lemma parseResponse_text:
  assumes "t \<noteq> []"
  shows "parseResponse P \<lparr>resp_text = Some t, resp_functionCall = None, resp_reasoning = rs\<rparr> =
     (if startsWith (trim t) ''{'' \<and> str_includes t toolEnvelopeMarker
      then (case P t of
              None \<Rightarrow> final_answer t
            | Some j \<Rightarrow>
               if getProp j ''action'' = JStr ''tool'' \<and> truthy (getProp j ''toolName'')
               then tool_call (getProp j ''toolName'') (js_or (getProp j ''toolArgs'') (JObj []))
               else final_answer t)
      else final_answer t)"
  using assms by (auto simp add: parseResponse_def getProp_nullish split: option.splits)

lemma parseResponse_never_error:
  assumes "t \<noteq> []"
  shows "parseResponse P (r\<lparr>resp_text := Some t\<rparr>) \<noteq> error_action e"
  using assms by (simp add: parseResponse_def split: option.splits)

text \<open>
  Claim C3, as the code has it. A structured function call is the tool call, whatever the
  text. Without one, a non-empty text is parsed as JSON when, after trimming white space,
  it begins with \<^verbatim>\<open>{\<close> and it contains the envelope marker; it becomes a tool call
  when the parsed value has \<^verbatim>\<open>action\<close> equal to \<^verbatim>\<open>'tool'\<close> and a truthy
  \<^verbatim>\<open>toolName\<close>; when the parse throws or the value is no such envelope, and in every
  other case, the raw text is the final answer. A response with a non-empty text is never
  interpreted as an error.
\<close>

theorem C3_interpretation_order:
  assumes "t \<noteq> []"
  shows "parseResponse P (r\<lparr>resp_functionCall := Some fc\<rparr>) = tool_call (JStr (fc_name fc)) (fc_arguments fc)
   \<and> parseResponse P \<lparr>resp_text = Some t, resp_functionCall = None, resp_reasoning = rs\<rparr> =
     (if startsWith (trim t) ''{'' \<and> str_includes t toolEnvelopeMarker
      then (case P t of
              None \<Rightarrow> final_answer t
            | Some j \<Rightarrow>
               if getProp j ''action'' = JStr ''tool'' \<and> truthy (getProp j ''toolName'')
               then tool_call (getProp j ''toolName'') (js_or (getProp j ''toolArgs'') (JObj []))
               else final_answer t)
      else final_answer t)
   \<and> (\<forall>e. parseResponse P (r\<lparr>resp_text := Some t\<rparr>) \<noteq> error_action e)"
  using assms parseResponse_functionCall parseResponse_text parseResponse_never_error by blast

text \<open>The theorem of C3 at a tool-call envelope.\<close>

theorem C3_interpretation_order_witness:
  \<open>''{"action":"tool","toolName":"search","toolArgs":{"q":"x"}}'' \<noteq> []
   \<and> parseResponse sampleJsonParse
        \<lparr>resp_text = Some ''{"action":"tool","toolName":"search","toolArgs":{"q":"x"}}'',
         resp_functionCall = None, resp_reasoning = None\<rparr>
      = tool_call (JStr ''search'') (JObj [(''q'', JStr ''x'')])\<close>
  using C3_interpretation_order [where t = \<open>''{"action":"tool","toolName":"search","toolArgs":{"q":"x"}}''\<close>
      and P = sampleJsonParse and rs = None]
  by (simp add: sampleJsonParse_def trim_def isWhiteSpace_def toolEnvelopeMarker_def js_or_def)

text \<open>
  Claim C3 as stated fails: this text does not begin with \<^verbatim>\<open>{\<close> (a space comes
  first), so the claim makes it the final answer, but the code trims it before the test
  and returns a tool call.
\<close>

theorem C3_leading_whitespace_counterexample:
  \<open>\<not> startsWith '' {"action":"tool","toolName":"search"}'' ''{''
   \<and> parseResponse sampleJsonParse
        \<lparr>resp_text = Some '' {"action":"tool","toolName":"search"}'',
         resp_functionCall = None, resp_reasoning = None\<rparr>
      = tool_call (JStr ''search'') (JObj [])
   \<and> parseResponse sampleJsonParse
        \<lparr>resp_text = Some '' {"action":"tool","toolName":"search"}'',
         resp_functionCall = None, resp_reasoning = None\<rparr>
      \<noteq> final_answer '' {"action":"tool","toolName":"search"}''\<close>
  by (simp add: parseResponse_def sampleJsonParse_def trim_def isWhiteSpace_def toolEnvelopeMarker_def js_or_def)

text \<open>
  Claim C10, amended: with no function call, a text that begins with \<^verbatim>\<open>{\<close> and does
  not contain the marker is the final answer for every \<^verbatim>\<open>JSON.parse\<close>, so the result
  does not depend on parsing; the marker, matched as an exact substring, has 15 characters.
\<close>

theorem C10_exact_substring:
  assumes "\<not> str_includes (CHR ''{'' # rest) toolEnvelopeMarker"
  shows "parseResponse jsonParse \<lparr>resp_text = Some (CHR ''{'' # rest), resp_functionCall = None, resp_reasoning = rs\<rparr>
           = final_answer (CHR ''{'' # rest)
         \<and> length toolEnvelopeMarker = 15"
  using assms by (simp add: parseResponse_def toolEnvelopeMarker_def)

text \<open>The theorem of C10 at an envelope written with a space after each colon, which
  \<^verbatim>\<open>JSON.parse\<close> would accept.\<close>

theorem C10_exact_substring_witness:
  \<open>\<not> str_includes ''{"action": "tool", "toolName": "search"}'' toolEnvelopeMarker
   \<and> sampleJsonParse ''{"action": "tool", "toolName": "search"}''
        = Some (JObj [(''action'', JStr ''tool''), (''toolName'', JStr ''search'')])
   \<and> parseResponse sampleJsonParse
        \<lparr>resp_text = Some ''{"action": "tool", "toolName": "search"}'',
         resp_functionCall = None, resp_reasoning = None\<rparr>
       = final_answer ''{"action": "tool", "toolName": "search"}''\<close>
proof -
  have h: \<open>\<not> str_includes (CHR ''{'' # ''"action": "tool", "toolName": "search"}'') toolEnvelopeMarker\<close>
    by (simp add: toolEnvelopeMarker_def)
  show ?thesis
    using h C10_exact_substring [OF h, of sampleJsonParse None]
    by (simp add: sampleJsonParse_def)
qed

text \<open>Claim C10 as stated fails in the length it gives to the marker: it is not 14.\<close>

theorem C10_marker_length_counterexample:
  "length toolEnvelopeMarker \<noteq> 14"
  by (simp add: toolEnvelopeMarker_def)

section \<open>The messages handed off\<close>

lemma handoffFilter_cases:
  "handoffFilter names m =
     (case m of
        UserChatMessage t \<Rightarrow> True
      | ModelChatMessage act name args callId ans fin rs \<Rightarrow>
          act = ActionFinal \<or> (\<exists>n. name = JStr n \<and> n \<noteq> [] \<and> n \<in> set names)
      | ToolResultMessage name txt isErr callId err dat \<Rightarrow>
          \<not> isErr \<and> (\<exists>n. name = JStr n \<and> n \<noteq> [] \<and> n \<in> set names))"
  apply (cases m)
    apply simp
  subgoal for act name
    by (cases act; cases name) (auto simp: includesName_def)
  subgoal for name
    by (cases name) (auto simp: includesName_def)
  done

text \<open>
  Claim C2, as the code has it. For a non-empty list of allowed names the handed-off
  messages are the log filtered in order: every USER message and every final MODEL message
  is kept; a tool-call message is kept exactly when its tool name is a non-empty string of
  the list; a tool result is kept exactly when it is not an error and its tool name is a
  non-empty string of the list. With no list the whole log is handed off. No tool call and
  no tool result of a tool outside the list is handed off.
\<close>

theorem C2_handoff_filter:
  assumes "names \<noteq> []"
  shows "handoffMessagesOf \<lparr>targetAgentName = target, trigger = tr, includeToolResults = Some names\<rparr> msgs =
           filter (\<lambda>m. case m of
                     UserChatMessage t \<Rightarrow> True
                   | ModelChatMessage act name args callId ans fin rs \<Rightarrow>
                       act = ActionFinal \<or> (\<exists>n. name = JStr n \<and> n \<noteq> [] \<and> n \<in> set names)
                   | ToolResultMessage name txt isErr callId err dat \<Rightarrow>
                       \<not> isErr \<and> (\<exists>n. name = JStr n \<and> n \<noteq> [] \<and> n \<in> set names)) msgs
         \<and> handoffMessagesOf \<lparr>targetAgentName = target, trigger = tr, includeToolResults = None\<rparr> msgs = msgs
         \<and> (\<forall>m \<in> set (handoffMessagesOf \<lparr>targetAgentName = target, trigger = tr, includeToolResults = Some names\<rparr> msgs).
               isModelTool m \<or> isToolResult m \<longrightarrow> (\<exists>n \<in> set names. toolName m = JStr n))"
proof -
  have a: "handoffMessagesOf \<lparr>targetAgentName = target, trigger = tr, includeToolResults = Some names\<rparr> msgs
            = filter (handoffFilter names) msgs"
    using assms by (simp add: handoffMessagesOf_def)
  have b: "handoffFilter names = (\<lambda>m. case m of
                     UserChatMessage t \<Rightarrow> True
                   | ModelChatMessage act name args callId ans fin rs \<Rightarrow>
                       act = ActionFinal \<or> (\<exists>n. name = JStr n \<and> n \<noteq> [] \<and> n \<in> set names)
                   | ToolResultMessage name txt isErr callId err dat \<Rightarrow>
                       \<not> isErr \<and> (\<exists>n. name = JStr n \<and> n \<noteq> [] \<and> n \<in> set names))"
    by (rule ext) (rule handoffFilter_cases)
  have c: "isModelTool m \<or> isToolResult m \<Longrightarrow> handoffFilter names m \<Longrightarrow> \<exists>n \<in> set names. toolName m = JStr n" for m
    by (cases m) (auto simp: handoffFilter_cases)
  show ?thesis
    using a b c by (auto simp: handoffMessagesOf_def)
qed

text \<open>The theorem of C2 for the list that holds \<^verbatim>\<open>search\<close> alone.\<close>

theorem C2_handoff_filter_witness:
  "[''search''] \<noteq> []
   \<and> handoffMessagesOf \<lparr>targetAgentName = ''B'', trigger = None, includeToolResults = Some [''search'']\<rparr>
        [UserChatMessage ''q'',
         ModelChatMessage ActionTool (JStr ''search'') (JObj []) (Some ''id1'') None False None,
         ToolResultMessage (JStr ''search'') (JStr ''hit'') False (Some ''id1'') None (Some (JStr ''hit'')),
         ModelChatMessage ActionTool (JStr ''click'') (JObj []) (Some ''id2'') None False None,
         ToolResultMessage (JStr ''click'') (JStr ''ok'') False (Some ''id2'') None (Some (JStr ''ok'')),
         ModelChatMessage ActionFinal JUndefined JUndefined None (Some ''found'') True None]
      = [UserChatMessage ''q'',
         ModelChatMessage ActionTool (JStr ''search'') (JObj []) (Some ''id1'') None False None,
         ToolResultMessage (JStr ''search'') (JStr ''hit'') False (Some ''id1'') None (Some (JStr ''hit'')),
         ModelChatMessage ActionFinal JUndefined JUndefined None (Some ''found'') True None]"
  using C2_handoff_filter [where names = "[''search'']" and target = "''B''" and tr = None]
  by simp

text \<open>
  Claim C2 as stated fails: the list contains \<^verbatim>\<open>search\<close>, yet of this pair for
  \<^verbatim>\<open>search\<close> only the tool call is kept, because the result is an error.
\<close>

theorem C2_failed_result_counterexample:
  "handoffMessagesOf \<lparr>targetAgentName = ''B'', trigger = None, includeToolResults = Some [''search'']\<rparr>
        [UserChatMessage ''q'',
         ModelChatMessage ActionTool (JStr ''search'') (JObj []) (Some ''id1'') None False None,
         ToolResultMessage (JStr ''search'') (JStr ''boom'') True (Some ''id1'') (Some (JStr ''boom'')) None]
      = [UserChatMessage ''q'',
         ModelChatMessage ActionTool (JStr ''search'') (JObj []) (Some ''id1'') None False None]"
  by (simp add: handoffMessagesOf_def includesName_def)

section \<open>The steps returned by a handoff\<close>

text \<open>
  Claim C5, as the code has it. When a handoff to a registered agent has completed, the
  target's run has returned some result, and the \<^verbatim>\<open>intermediateSteps\<close> returned are
  decided by the target's \<^verbatim>\<open>includeIntermediateStepsOnReturn\<close>: when it is
  \<^verbatim>\<open>true\<close>, the messages before the handoff followed by the steps of the target's
  result; otherwise none at all. The delegating agent is arbitrary here: its flag is not
  read.
\<close>

theorem C5_target_flag_decides:
  assumes target: "getRegisteredTool env (targetAgentName hc) = Some (AgentTool target)"
      and completed: "executeHandoff fuel env currentMessages originalArgs hc delegator key
                   defaultModel defaultMax defaultTemp defaultSuccess defaultError llmToolArgs w
                 = Some (Resolved r, w')"
  shows "\<exists>fuel' targetArgs prompt w2 handoffResult.
           fuel = Suc fuel'
         \<and> run fuel' env (handoffMessagesOf hc currentMessages) targetArgs
              (targetRunnerConfig env (config target) key prompt defaultModel defaultMax defaultTemp)
              (targetRunnerHooks (config target) defaultSuccess defaultError)
              (Some target) w2 = Some (Resolved handoffResult, w')
         \<and> intermediateSteps r =
              (if cfg_includeIntermediateStepsOnReturn (config target) = Some True
               then Some (currentMessages
                          @ (case intermediateSteps handoffResult of None \<Rightarrow> [] | Some steps \<Rightarrow> steps))
               else None)"
proof -
  define w1 where "w1 = emit (HandoffInitiated (tool_name delegator) (tool_name target)) w"
  define targetArgs where
    "targetArgs = (case llmToolArgs of None \<Rightarrow> originalArgs
                   | Some a \<Rightarrow> if nullish a then originalArgs else a)"
  obtain prompt where
    prompt: "enhancePromptWithPageContext env (clock w1) (cfg_systemPrompt (config target)) = Inr prompt"
    using target completed
    by (cases "enhancePromptWithPageContext env (clock w1) (cfg_systemPrompt (config target))")
       (auto simp add: executeHandoff.simps Let_def w1_def)
  obtain fuel' where fuel: "fuel = Suc fuel'"
    using target completed prompt
    by (cases fuel) (auto simp add: executeHandoff.simps Let_def w1_def)
  define targetRun where
    "targetRun = run fuel' env (handoffMessagesOf hc currentMessages) targetArgs
              (targetRunnerConfig env (config target) key prompt defaultModel defaultMax defaultTemp)
              (targetRunnerHooks (config target) defaultSuccess defaultError)
              (Some target) (tick w1)"
  have eq: "executeHandoff fuel env currentMessages originalArgs hc delegator key
              defaultModel defaultMax defaultTemp defaultSuccess defaultError llmToolArgs w
            = (case targetRun of
                 None \<Rightarrow> None
               | Some (Resolved handoffResult, w3) \<Rightarrow>
                   Some (Resolved (handoffReturn (config target) currentMessages handoffResult), w3)
               | Some (Rejected e, w3) \<Rightarrow> Some (Rejected e, w3))"
    using target fuel prompt
    by (simp add: executeHandoff.simps Let_def targetRun_def targetArgs_def w1_def)
  from completed eq obtain handoffResult
    where tr: "targetRun = Some (Resolved handoffResult, w')"
      and r: "r = handoffReturn (config target) currentMessages handoffResult"
    by (auto split: option.splits prod.splits RunOutcome.splits)
  have "intermediateSteps r =
              (if cfg_includeIntermediateStepsOnReturn (config target) = Some True
               then Some (currentMessages
                          @ (case intermediateSteps handoffResult of None \<Rightarrow> [] | Some steps \<Rightarrow> steps))
               else None)"
    by (simp add: r handoffReturn_def)
  with tr fuel show ?thesis
    unfolding targetRun_def by blast
qed

text \<open>The theorem of C5 for a target whose flag is \<^verbatim>\<open>true\<close> and a delegator whose
  flag is \<^verbatim>\<open>false\<close>.\<close>

theorem C5_target_flag_decides_witness:
  "getRegisteredTool (envWithB (Some True)) (targetAgentName handoffToB)
     = Some (AgentTool (sampleAgent ''B'' None (Some True)))
   \<and> executeHandoff 2 (envWithB (Some True)) [UserChatMessage ''go''] JNull handoffToB
        (sampleAgent ''A'' (Some [handoffToB]) (Some False))
        ''key'' ''model'' (Finite 3) 0 sampleCreateSuccessResult sampleCreateErrorResult None world0
      = Some (Resolved (sampleCreateSuccessResult ''done''
                [UserChatMessage ''go'', UserChatMessage ''go'',
                 ModelChatMessage ActionFinal JUndefined JUndefined None (Some ''done'') True None]
                FINAL_ANSWER),
              \<lparr>clock = 3,
               events = [HandoffInitiated ''A'' ''B'', IterationStarted ''B'' 1 (Finite 3),
                         LLMCalling ''B'' 1]\<rparr>)
   \<and> (\<exists>handoffResult :: ConfigurableAgentResult.
         intermediateSteps (sampleCreateSuccessResult ''done''
                [UserChatMessage ''go'', UserChatMessage ''go'',
                 ModelChatMessage ActionFinal JUndefined JUndefined None (Some ''done'') True None]
                FINAL_ANSWER)
         = Some ([UserChatMessage ''go'']
                 @ (case intermediateSteps handoffResult of None \<Rightarrow> [] | Some steps \<Rightarrow> steps)))"
proof -
  have h1: "getRegisteredTool (envWithB (Some True)) (targetAgentName handoffToB)
     = Some (AgentTool (sampleAgent ''B'' None (Some True)))"
    by (simp add: envWithB_def sampleEnv_def handoffToB_def)
  have h2: "executeHandoff 2 (envWithB (Some True)) [UserChatMessage ''go''] JNull handoffToB
        (sampleAgent ''A'' (Some [handoffToB]) (Some False))
        ''key'' ''model'' (Finite 3) 0 sampleCreateSuccessResult sampleCreateErrorResult None world0
      = Some (Resolved (sampleCreateSuccessResult ''done''
                [UserChatMessage ''go'', UserChatMessage ''go'',
                 ModelChatMessage ActionFinal JUndefined JUndefined None (Some ''done'') True None]
                FINAL_ANSWER),
              \<lparr>clock = 3,
               events = [HandoffInitiated ''A'' ''B'', IterationStarted ''B'' 1 (Finite 3),
                         LLMCalling ''B'' 1]\<rparr>)"
    by code_simp
  have flag: "cfg_includeIntermediateStepsOnReturn (config (sampleAgent ''B'' None (Some True))) = Some True"
    by (simp add: sampleAgent_def)
  have "\<exists>handoffResult :: ConfigurableAgentResult. intermediateSteps (sampleCreateSuccessResult ''done''
                [UserChatMessage ''go'', UserChatMessage ''go'',
                 ModelChatMessage ActionFinal JUndefined JUndefined None (Some ''done'') True None]
                FINAL_ANSWER)
     = (if cfg_includeIntermediateStepsOnReturn (config (sampleAgent ''B'' None (Some True))) = Some True
        then Some ([UserChatMessage ''go'']
                   @ (case intermediateSteps handoffResult of None \<Rightarrow> [] | Some steps \<Rightarrow> steps))
        else None)"
    using C5_target_flag_decides [OF h1 h2]
    by (elim exE conjE) (rule exI, assumption)
  then have "\<exists>handoffResult :: ConfigurableAgentResult. intermediateSteps (sampleCreateSuccessResult ''done''
                [UserChatMessage ''go'', UserChatMessage ''go'',
                 ModelChatMessage ActionFinal JUndefined JUndefined None (Some ''done'') True None]
                FINAL_ANSWER)
     = Some ([UserChatMessage ''go'']
                   @ (case intermediateSteps handoffResult of None \<Rightarrow> [] | Some steps \<Rightarrow> steps))"
    by (simp only: flag if_True simp_thms)
  with h1 h2 show ?thesis
    by (intro conjI)
qed

text \<open>
  Claim C5 as stated fails: with the flag unset, the target's own run returns two steps
  (second equation), but the handoff returns no \<^verbatim>\<open>intermediateSteps\<close> at all.
\<close>

theorem C5_unset_flag_counterexample:
  "cfg_includeIntermediateStepsOnReturn (config (sampleAgent ''B'' None None)) = None
   \<and> executeHandoff 2 (envWithB None) [UserChatMessage ''go''] JNull handoffToB
        (sampleAgent ''A'' (Some [handoffToB]) (Some True))
        ''key'' ''model'' (Finite 3) 0 sampleCreateSuccessResult sampleCreateErrorResult None world0
      = Some (Resolved \<lparr>success = True, res_output = Some ''done'', res_error = None,
                        intermediateSteps = None, terminationReason = Some FINAL_ANSWER\<rparr>,
              \<lparr>clock = 3,
               events = [HandoffInitiated ''A'' ''B'', IterationStarted ''B'' 1 (Finite 3),
                         LLMCalling ''B'' 1]\<rparr>)
   \<and> run 1 (envWithB None) (handoffMessagesOf handoffToB [UserChatMessage ''go'']) JNull
        (targetRunnerConfig (envWithB None) (config (sampleAgent ''B'' None None)) ''key'' ''You are B''
           ''model'' (Finite 3) 0)
        (targetRunnerHooks (config (sampleAgent ''B'' None None))
           sampleCreateSuccessResult sampleCreateErrorResult)
        (Some (sampleAgent ''B'' None None))
        \<lparr>clock = 1, events = [HandoffInitiated ''A'' ''B'']\<rparr>
      = Some (Resolved \<lparr>success = True, res_output = Some ''done'', res_error = None,
               intermediateSteps =
                 Some [UserChatMessage ''go'',
                       ModelChatMessage ActionFinal JUndefined JUndefined None (Some ''done'') True None],
               terminationReason = Some FINAL_ANSWER\<rparr>,
              \<lparr>clock = 3,
               events = [HandoffInitiated ''A'' ''B'', IterationStarted ''B'' 1 (Finite 3),
                         LLMCalling ''B'' 1]\<rparr>)"
  by code_simp

section \<open>The text of a tool result\<close>

text \<open>
  Claim C4 does not hold of \<^verbatim>\<open>run\<close>. A tool returns an object with an
  \<^verbatim>\<open>imageData\<close> property; in the final log of the run the text of its tool result is
  the whole object stringified, with the image in it, and \<^verbatim>\<open>resultData\<close> holds the
  object once more. The sanitization of the test scripts, which would give the last text
  below, is not applied.
\<close>

theorem C4_image_data_in_result_text:
  \<open>run 2 imageEnv [UserChatMessage ''click''] JNull (sampleConfig [PlainTool imageTool] (Finite 3))
       sampleHooks None world0
     = Some (Resolved (sampleCreateSuccessResult ''done''
               [UserChatMessage ''click'',
                ModelChatMessage ActionTool (JStr ''perform_action'') (JObj []) (Some ''uuid-2'') None False None,
                ToolResultMessage (JStr ''perform_action'')
                  (JStr ''{\<newline>  "imageData": "data:image/png;base64,iVBORw0KGgo=",\<newline>  "xpath": "//button"\<newline>}'')
                  False (Some ''uuid-2'') None (Some imageResult),
                ModelChatMessage ActionFinal JUndefined JUndefined None (Some ''done'') True None]
               FINAL_ANSWER),
             \<lparr>clock = 6,
              events = [IterationStarted ''Unknown'' 1 (Finite 3), LLMCalling ''Unknown'' 1,
                        ToolExecuting ''Unknown'' ''perform_action'',
                        IterationStarted ''Unknown'' 2 (Finite 3), LLMCalling ''Unknown'' 3]\<rparr>)
   \<and> str_includes ''{\<newline>  "imageData": "data:image/png;base64,iVBORw0KGgo=",\<newline>  "xpath": "//button"\<newline>}''
         ''data:image/png;base64,iVBORw0KGgo=''
   \<and> JSON_stringify_2 (sanitizeToolResultForText imageResult)
     = JStr ''{\<newline>  "xpath": "//button"\<newline>}''\<close>
  by code_simp

section \<open>The world and the log of events\<close>

lemma clock_tick [simp]: "clock (tick w) = Suc (clock w)"
  by (simp add: tick_def)

lemma events_tick [simp]: "events (tick w) = events w"
  by (simp add: tick_def)

lemma clock_emit [simp]: "clock (emit e w) = clock w"
  by (simp add: emit_def)

lemma events_emit [simp]: "events (emit e w) = events w @ [e]"
  by (simp add: emit_def)

lemma clock_beginIteration [simp]: "clock (beginIteration ctx i msgs w) = Suc (clock w)"
  by (simp add: beginIteration_def)

lemma events_beginIteration [simp]:
  "events (beginIteration ctx i msgs w) =
     events w @ [IterationStarted (lc_agentName ctx) (Suc i) (maxIterations (lc_config ctx)),
                 LLMCalling (lc_agentName ctx) (length msgs)]"
  by (simp add: beginIteration_def)

lemma events_processToolCall:
  "\<exists>evs. events (snd (processToolCall env ctx msgs resp name args w)) = events w @ evs
         \<and> filter isIterationStarted evs = []"
  by (auto simp add: processToolCall_def Let_def loopError_def split: option.splits prod.splits sum.splits)

lemma events_iterationBody:
  "\<exists>evs. events (snd (iterationBody env ctx i msgs w)) =
           events w @ IterationStarted (lc_agentName ctx) (Suc i) (maxIterations (lc_config ctx)) # evs
         \<and> filter isIterationStarted evs = []"
proof (cases "enhancePromptWithPageContext env (clock w) (iterationPrompt env ctx i)")
  case (Inl e)
  then show ?thesis
    by (simp add: iterationBody_def)
next
  case (Inr prompt)
  show ?thesis
  proof (cases "llm_call env (Suc (clock w)) (llmRequest env ctx msgs prompt)")
    case (Inl e)
    with Inr show ?thesis
      by (simp add: iterationBody_def Let_def)
  next
    case resp: (Inr resp)
    show ?thesis
    proof (cases "llm_parseResponse env resp")
      case (tool_call name args)
      obtain evs where
        "events (snd (processToolCall env ctx msgs resp name args (tick (beginIteration ctx i msgs w))))
           = events (tick (beginIteration ctx i msgs w)) @ evs"
        "filter isIterationStarted evs = []"
        using events_processToolCall by blast
      with Inr resp tool_call show ?thesis
        by (simp add: iterationBody_def Let_def)
    next
      case (final_answer ans)
      with Inr resp show ?thesis
        by (simp add: iterationBody_def Let_def)
    next
      case (error_action e)
      with Inr resp show ?thesis
        by (simp add: iterationBody_def Let_def loopError_def)
    qed
  qed
qed

lemma iterationsStarted_iterationBody:
  "iterationsStarted (snd (iterationBody env ctx i msgs w)) = Suc (iterationsStarted w)"
  using events_iterationBody [of env ctx i msgs w]
  by (auto simp add: iterationsStarted_def)


lemma iterationsStarted_emit_MaxIterationsReached [simp]:
  "iterationsStarted (emit (MaxIterationsReached a n) w) = iterationsStarted w"
  by (simp add: iterationsStarted_def)

section \<open>Unfolding the loop and the run\<close>

lemma lessThanNumber_Finite: "lessThanNumber i (Finite r) \<longleftrightarrow> i < nat \<lceil>r\<rceil>"
proof -
  have "lessThanNumber i (Finite r) \<longleftrightarrow> of_int (int i) < r"
    by simp
  also have "\<dots> \<longleftrightarrow> int i < \<lceil>r\<rceil>"
    by (simp only: less_ceiling_iff)
  also have "\<dots> \<longleftrightarrow> i < nat \<lceil>r\<rceil>"
    by arith
  finally show ?thesis .
qed

lemma agentLoop_step:
  "lessThanNumber i (maxIterations (lc_config ctx)) \<Longrightarrow>
     agentLoop (Suc fuel) env ctx i msgs w =
       (case iterationBody env ctx i msgs w of
          (Continue msgs', w') \<Rightarrow> agentLoop fuel env ctx (Suc i) msgs' w'
        | (Stop outcome, w') \<Rightarrow> Some (outcome, w'))"
  by (subst agentLoop.simps) (simp split: prod.splits StepOutcome.splits)

lemma agentLoop_no_fuel:
  "lessThanNumber i (maxIterations (lc_config ctx)) \<Longrightarrow> agentLoop 0 env ctx i msgs w = None"
  by (subst agentLoop.simps) simp

lemma agentLoop_exit:
  "\<not> lessThanNumber i (maxIterations (lc_config ctx)) \<Longrightarrow>
     agentLoop fuel env ctx i msgs w = Some (afterLoop env ctx msgs w)"
  by (subst agentLoop.simps) simp

lemma lc_loopCtxOf [simp]:
  "lc_config (loopCtxOf env args cfg hooks agent) = cfg"
  "lc_hooks (loopCtxOf env args cfg hooks agent) = hooks"
  "lc_executingAgent (loopCtxOf env args cfg hooks agent) = agent"
  "lc_args (loopCtxOf env args cfg hooks agent) = args"
  "lc_agentName (loopCtxOf env args cfg hooks agent) = agentNameOf agent"
  by (simp_all add: loopCtxOf_def split: prod.splits)

lemma run_Finished:
  assumes "agentLoop fuel env (loopCtxOf env args cfg hooks agent) 0
             (case prepareInitialMessages hooks of Some f \<Rightarrow> f initialMessages | None \<Rightarrow> initialMessages) w
           = Some (Finished outcome, w')"
  shows "run fuel env initialMessages args cfg hooks agent w = Some (outcome, w')"
  using assms by (simp add: run.simps Let_def)

lemma run_HandoffAtMaxIterations:
  assumes "agentLoop fuel env (loopCtxOf env args cfg hooks agent) 0
             (case prepareInitialMessages hooks of Some f \<Rightarrow> f initialMessages | None \<Rightarrow> initialMessages) w
           = Some (HandoffAtMaxIterations msgs oargs hc a, w')"
  shows "run fuel env initialMessages args cfg hooks agent w =
           executeHandoff fuel env msgs oargs hc a (apiKey cfg) (modelName cfg) (maxIterations cfg)
             (temperatureOrZero (temperature cfg)) (createSuccessResult hooks) (createErrorResult hooks)
             None w'"
  using assms by (simp add: run.simps Let_def)



section \<open>A failing LLM call\<close>

lemma messageOrString_Error [simp]:
  "messageOrString env (ThrownError name message) = Inr (if message \<noteq> [] then message else name)"
  by (simp add: messageOrString_def)

lemma iterationBody_llm_failure:
  assumes "enhancePromptWithPageContext env (clock w) (iterationPrompt env ctx i) = Inr prompt"
      and "llm_call env (Suc (clock w)) (llmRequest env ctx messages prompt) = Inl e"
      and "messageOrString env e = Inr text"
  shows "iterationBody env ctx i messages w =
           (Stop (Finished (Resolved (createErrorResult (lc_hooks ctx) (''LLM call failed: '' @ text)
                        (messages @ [systemErrorMessage (''LLM call failed: '' @ text)]) ERROR))),
            tick (beginIteration ctx i messages w))"
  using assms by (simp add: iterationBody_def Let_def llmCallCaught_def)

text \<open>
  Claim C8 does not hold of \<^verbatim>\<open>run\<close>. An LLM call that throws an \<^verbatim>\<open>Error\<close> gives
  what the claim says: one synthetic error tool result is appended and the error result is
  returned after one iteration (first equation). An LLM call that rejects with
  \<^verbatim>\<open>undefined\<close> gives no result at all: the \<^verbatim>\<open>catch\<close> block reads
  \<^verbatim>\<open>error.message\<close>, that read throws a \<^verbatim>\<open>TypeError\<close>, and \<^verbatim>\<open>run\<close> rejects with
  it; no tool result is appended and no error result is made (second equation).
\<close>

theorem C8_gateway_rejection_escapes:
  "run 3 failingEnv [UserChatMessage ''2+2?''] JNull (sampleConfig [] (Finite 3)) sampleHooks None world0
     = Some (Resolved (sampleCreateErrorResult ''LLM call failed: timeout''
               [UserChatMessage ''2+2?'',
                ToolResultMessage (JStr ''system_error'') (JStr ''LLM call failed: timeout'') True None
                  (Some (JStr ''LLM call failed: timeout'')) None]
               ERROR),
             \<lparr>clock = 2, events = [IterationStarted ''Unknown'' 1 (Finite 3), LLMCalling ''Unknown'' 1]\<rparr>)
   \<and> llm_call rejectingEnv 1
        (llmRequest rejectingEnv (loopCtxOf rejectingEnv JNull (sampleConfig [] (Finite 3)) sampleHooks None)
           [UserChatMessage ''2+2?'']
           (''You are an agent.'' @ iterationInfo rejectingEnv 0 (Finite 3)))
       = Inl (ThrownValue JUndefined)
   \<and> run 3 rejectingEnv [UserChatMessage ''2+2?''] JNull (sampleConfig [] (Finite 3)) sampleHooks None world0
     = Some (Rejected (ThrownError ''TypeError''
                        (''Cannot read properties of undefined (reading '' @ [CHR 0x27] @ ''message''
                         @ [CHR 0x27] @ '')'')),
             \<lparr>clock = 2, events = [IterationStarted ''Unknown'' 1 (Finite 3), LLMCalling ''Unknown'' 1]\<rparr>)"
  by code_simp

section \<open>A failing tool\<close>

text \<open>
  Claim C6 does not hold of \<^verbatim>\<open>run\<close>. A tool that returns \<^verbatim>\<open>{error: "x"}\<close> gives
  what the claim says: with a budget of two iterations both are run, each records an error
  tool result, and the run ends by the budget (first equation). A tool that rejects with
  \<^verbatim>\<open>undefined\<close> ends the run: the \<^verbatim>\<open>catch\<close> block of the execution reads
  \<^verbatim>\<open>err.message\<close>, that read throws a \<^verbatim>\<open>TypeError\<close>, the \<^verbatim>\<open>catch\<close> block of the
  loop body takes it, and the run returns an error result after one of its three
  iterations, with no tool result for the call (second equation).
\<close>

theorem C6_tool_rejection_ends_run:
  "run 3 noopEnv [UserChatMessage ''go''] JNull (sampleConfig [PlainTool errorTool] (Finite 2)) sampleHooks None world0
     = Some (Resolved (sampleCreateErrorResult ''Agent reached maximum iterations (2)''
               [UserChatMessage ''go'',
                ModelChatMessage ActionTool (JStr ''noop'') (JObj []) (Some ''uuid-2'') None False None,
                ToolResultMessage (JStr ''noop'') (JStr ''x'') True (Some ''uuid-2'') (Some (JStr ''x''))
                  (Some (JObj [(''error'', JStr ''x'')])),
                ModelChatMessage ActionTool (JStr ''noop'') (JObj []) (Some ''uuid-6'') None False None,
                ToolResultMessage (JStr ''noop'') (JStr ''x'') True (Some ''uuid-6'') (Some (JStr ''x''))
                  (Some (JObj [(''error'', JStr ''x'')]))]
               MAX_ITERATIONS),
             \<lparr>clock = 8,
              events = [IterationStarted ''Unknown'' 1 (Finite 2), LLMCalling ''Unknown'' 1,
                        ToolExecuting ''Unknown'' ''noop'',
                        IterationStarted ''Unknown'' 2 (Finite 2), LLMCalling ''Unknown'' 3,
                        ToolExecuting ''Unknown'' ''noop'',
                        MaxIterationsReached ''Unknown'' (Finite 2)]\<rparr>)
   \<and> tool_execute rejectingTool 3 (JObj []) = Inl (ThrownValue JUndefined)
   \<and> run 3 noopEnv [UserChatMessage ''go''] JNull (sampleConfig [PlainTool rejectingTool] (Finite 3)) sampleHooks None world0
     = Some (Resolved (sampleCreateErrorResult
               (''Agent loop error: Cannot read properties of undefined (reading '' @ [CHR 0x27] @ ''message''
                @ [CHR 0x27] @ '')'')
               [UserChatMessage ''go'',
                ModelChatMessage ActionTool (JStr ''noop'') (JObj []) (Some ''uuid-2'') None False None,
                systemErrorMessage
                  (''Agent loop error: Cannot read properties of undefined (reading '' @ [CHR 0x27] @ ''message''
                   @ [CHR 0x27] @ '')'')]
               ERROR),
             \<lparr>clock = 4,
              events = [IterationStarted ''Unknown'' 1 (Finite 3), LLMCalling ''Unknown'' 1,
                        ToolExecuting ''Unknown'' ''noop'']\<rparr>)"
  by code_simp

section \<open>The iteration budget\<close>

lemma answersTo_toolResultMessage:
  "answersTo (ModelChatMessage ActionTool name args (Some callId) ans fin rs)
             (toolResultMessage name' callId outcome)"
  by (cases outcome) (simp add: answersTo_def toolResultMessage_def)

lemma toolOutcome_not_nullish:
  assumes "case r of Inl (ThrownValue v) \<Rightarrow> \<not> nullish v | _ \<Rightarrow> True"
  shows "\<exists>outcome. toolOutcome env r = Inr outcome"
proof (cases r)
  case (Inl e)
  with assms show ?thesis
    by (cases e) (auto simp add: toolOutcome_def messageOrString_def Let_def)
next
  case (Inr d)
  then show ?thesis
    by (auto simp add: toolOutcome_def Let_def)
qed

lemma iterationBody_ordinary:
  assumes "ordinaryToolCall env ctx i msgs w"
  shows "\<exists>c r w'. iterationBody env ctx i msgs w = (Continue (msgs @ [c, r]), w')
                   \<and> isModelTool c \<and> answersTo c r"
proof -
  from assms obtain prompt where
    prompt: "enhancePromptWithPageContext env (clock w) (iterationPrompt env ctx i) = Inr prompt"
    by (cases "enhancePromptWithPageContext env (clock w) (iterationPrompt env ctx i)")
       (auto simp add: ordinaryToolCall_def)
  from assms prompt obtain resp where
    resp: "llm_call env (Suc (clock w)) (llmRequest env ctx msgs prompt) = Inr resp"
    by (cases "llm_call env (Suc (clock w)) (llmRequest env ctx msgs prompt)")
       (auto simp add: ordinaryToolCall_def)
  from assms prompt resp obtain name args where
    parsed: "llm_parseResponse env resp = tool_call name args"
    by (cases "llm_parseResponse env resp") (auto simp add: ordinaryToolCall_def)
  from assms prompt resp parsed obtain tool where
    tool: "toolMapGet (lc_toolMap ctx) name = Some tool"
    by (cases "toolMapGet (lc_toolMap ctx) name") (auto simp add: ordinaryToolCall_def)
  from assms prompt resp parsed tool have
    plain: "handoffTarget (jsToString name) tool = None"
    and thrown: "case tool_execute (asTool tool) (clock w + 3) args of
                   Inl (ThrownValue v) \<Rightarrow> \<not> nullish v | _ \<Rightarrow> True"
    by (simp_all add: ordinaryToolCall_def)
  obtain outcome where
    outcome: "toolOutcome env (tool_execute (asTool tool) (clock w + 3) args) = Inr outcome"
    using toolOutcome_not_nullish [OF thrown] by blast
  have "iterationBody env ctx i msgs w =
          (Continue (msgs @
              [ModelChatMessage ActionTool name args (Some (randomUUID env (clock w + 2))) None False
                 (resp_reasoning resp),
               toolResultMessage name (randomUUID env (clock w + 2)) outcome]),
           tick (emit (ToolExecuting (lc_agentName ctx) (tool_name (asTool tool)))
                   (tick (tick (beginIteration ctx i msgs w)))))"
    using prompt resp parsed tool plain outcome
    by (simp add: iterationBody_def processToolCall_def Let_def numeral_3_eq_3 numeral_2_eq_2)
  then show ?thesis
    using answersTo_toolResultMessage by auto
qed

lemma agentLoop_ordinaryIterations:
  assumes "maxIterations (lc_config ctx) = Finite r"
      and "ordinaryIterations n env ctx i msgs w"
      and "i + n = nat \<lceil>r\<rceil>"
      and "n \<le> fuel"
  shows "\<exists>finalLog w1. agentLoop fuel env ctx i msgs w = Some (afterLoop env ctx finalLog w1)
                 \<and> iterationsStarted w1 = iterationsStarted w + n
                 \<and> length finalLog = length msgs + 2 * n"
  using assms(2-4)
proof (induction n arbitrary: fuel i msgs w)
  case 0
  then have "\<not> lessThanNumber i (maxIterations (lc_config ctx))"
    by (simp add: assms(1) lessThanNumber_Finite del: lessThanNumber.simps)
  then have "agentLoop fuel env ctx i msgs w = Some (afterLoop env ctx msgs w)"
    by (rule agentLoop_exit)
  then show ?case
    by auto
next
  case (Suc n)
  have less: "lessThanNumber i (maxIterations (lc_config ctx))"
    using Suc.prems(2) by (simp add: assms(1) lessThanNumber_Finite del: lessThanNumber.simps)
  obtain fuel' where fuel: "fuel = Suc fuel'" and fuel': "n \<le> fuel'"
    using Suc.prems(3) by (cases fuel) auto
  have ordinary: "ordinaryToolCall env ctx i msgs w"
    using Suc.prems(1) by simp
  obtain c tr w' where
    body: "iterationBody env ctx i msgs w = (Continue (msgs @ [c, tr]), w')"
    using iterationBody_ordinary [OF ordinary] by blast
  have rest: "ordinaryIterations n env ctx (Suc i) (msgs @ [c, tr]) w'"
    using Suc.prems(1) body by simp
  have cnt: "iterationsStarted w' = Suc (iterationsStarted w)"
    using iterationsStarted_iterationBody [of env ctx i msgs w] body by simp
  have "Suc i + n = nat \<lceil>r\<rceil>"
    using Suc.prems(2) by simp
  from Suc.IH [OF rest this fuel'] obtain finalLog w1 where
    loop: "agentLoop fuel' env ctx (Suc i) (msgs @ [c, tr]) w' = Some (afterLoop env ctx finalLog w1)"
    and cnt1: "iterationsStarted w1 = iterationsStarted w' + n"
    and len: "length finalLog = length (msgs @ [c, tr]) + 2 * n"
    by blast
  have "agentLoop fuel env ctx i msgs w = Some (afterLoop env ctx finalLog w1)"
    using less body loop by (simp add: fuel agentLoop_step)
  moreover have "iterationsStarted w1 = iterationsStarted w + Suc n"
    using cnt cnt1 by simp
  moreover have "length finalLog = length msgs + 2 * Suc n"
    using len by simp
  ultimately show ?case
    by blast
qed

lemma find_first:
  assumes "P x" and "\<forall>y \<in> set pre. \<not> P y"
  shows "find P (pre @ x # post) = Some x"
  using assms by (induction pre) simp_all


lemma findMaxIterHandoffConfig_first:
  assumes "cfg_handoffs (config a) = Some (pre @ hc # post)"
      and "trigger hc = Some MAX_ITERATIONS_TRIGGER"
      and "\<forall>h \<in> set pre. trigger h \<noteq> Some MAX_ITERATIONS_TRIGGER"
  shows "findMaxIterHandoffConfig (Some a) = Some (a, hc)"
  using assms find_first [of "\<lambda>h. trigger h = Some MAX_ITERATIONS_TRIGGER" hc pre post]
  by (simp add: findMaxIterHandoffConfig_def)


lemma run_exhausted_rule:
  assumes "agentLoop fuel env (loopCtxOf env args cfg hooks agent) 0
             (case prepareInitialMessages hooks of Some f \<Rightarrow> f initialMessages | None \<Rightarrow> initialMessages) w
           = Some (afterLoop env (loopCtxOf env args cfg hooks agent) finalLog w1)"
      and "findMaxIterHandoffConfig agent = Some (a, hc)"
  shows "run fuel env initialMessages args cfg hooks agent w =
           executeHandoff fuel env finalLog args hc a (apiKey cfg) (modelName cfg) (maxIterations cfg)
             (temperatureOrZero (temperature cfg)) (createSuccessResult hooks) (createErrorResult hooks)
             None (emit (MaxIterationsReached (agentNameOf agent) (maxIterations cfg)) w1)"
proof -
  have "afterLoop env (loopCtxOf env args cfg hooks agent) finalLog w1 =
          (HandoffAtMaxIterations finalLog args hc a,
           emit (MaxIterationsReached (agentNameOf agent) (maxIterations cfg)) w1)"
    using assms(2) by (simp add: afterLoop_def Let_def)
  with assms(1) show ?thesis
    by (simp add: run_HandoffAtMaxIterations)
qed




section \<open>A handoff target that is not registered\<close>

lemma addHandoffTools_skip:
  assumes "getRegisteredTool env (targetAgentName h) = None"
  shows "addHandoffTools env (pre @ h # post) acc = addHandoffTools env (pre @ post) acc"
proof (induction pre arbitrary: acc)
  case Nil
  obtain m s where "acc = (m, s)"
    by (cases acc)
  with assms show ?case
    by simp
next
  case (Cons x pre)
  obtain m s where acc: "acc = (m, s)"
    by (cases acc)
  show ?case
    unfolding acc using Cons.IH
    by (simp split: option.splits RegisteredTool.splits)
qed

lemma mapOfTools_None:
  "mapOfTools ts m k = None \<longleftrightarrow> m k = None \<and> (\<forall>t \<in> set ts. tool_name (asTool t) \<noteq> k)"
  by (induction ts arbitrary: m) auto

lemma addHandoffTools_lookup_None:
  assumes "m k = None"
      and "\<forall>h \<in> set hs. handoffToolName (targetAgentName h) = k
             \<longrightarrow> getRegisteredTool env (targetAgentName h) = None"
  shows "fst (addHandoffTools env hs (m, s)) k = None"
  using assms
proof (induction hs arbitrary: m s)
  case Nil
  then show ?case
    by simp
next
  case (Cons x hs)
  then show ?case
    by (auto split: option.splits RegisteredTool.splits)
qed

lemma handoffToolName_inject [simp]: "handoffToolName a = handoffToolName b \<longleftrightarrow> a = b"
  by (simp add: handoffToolName_def)

lemma lc_tools_loopCtxOf:
  "lc_toolMap (loopCtxOf env args cfg hooks agent) = fst (buildTools env (tools cfg) agent)"
  "lc_toolSchemas (loopCtxOf env args cfg hooks agent) = snd (buildTools env (tools cfg) agent)"
  by (simp_all add: loopCtxOf_def split: prod.splits)

lemma buildTools_skip:
  assumes "getRegisteredTool env (targetAgentName h) = None"
      and "cfg_handoffs (config agent) = Some (pre @ h # post)"
  shows "buildTools env ts (Some agent) =
           buildTools env ts (Some (agent\<lparr>config := (config agent)\<lparr>cfg_handoffs := Some (pre @ post)\<rparr>\<rparr>))"
  using assms addHandoffTools_skip [OF assms(1)]
  by (simp add: buildTools_def agentHandoffs_def)

lemma buildTools_no_handoff_tool:
  assumes "getRegisteredTool env target = None"
      and "\<forall>t \<in> set ts. tool_name (asTool t) \<noteq> handoffToolName target"
  shows "fst (buildTools env ts agent) (handoffToolName target) = None"
proof (cases "agentHandoffs agent")
  case None
  then show ?thesis
    using assms(2) by (simp add: buildTools_def mapOfTools_None)
next
  case (Some hs)
  have "fst (addHandoffTools env hs (mapOfTools ts Map.empty, map schemaOf ts)) (handoffToolName target) = None"
    using assms by (intro addHandoffTools_lookup_None) (simp_all add: mapOfTools_None)
  with Some show ?thesis
    by (simp add: buildTools_def)
qed

lemma executeHandoff_unregistered:
  assumes "getRegisteredTool env (targetAgentName h) = None"
  shows "executeHandoff fuel env msgs originalArgs h agent key defaultModel defaultMax defaultTemp
           defaultSuccess defaultError llmToolArgs w =
         Some (Resolved (defaultError (targetNotFoundMessage (targetAgentName h)) msgs ERROR),
               emit (HandoffTargetMissing (targetAgentName h)) w)"
  using assms by (simp add: executeHandoff.simps)

lemma run_final_answer:
  assumes "lessThanNumber 0 (maxIterations cfg)"
      and "enhancePromptWithPageContext env (clock w)
             (systemPrompt cfg @ iterationInfo env 0 (maxIterations cfg)) = Inr prompt"
      and "llm_call env (clock w + 1)
             (llmRequest env (loopCtxOf env args cfg hooks agent)
                (case prepareInitialMessages hooks of Some f \<Rightarrow> f initialMessages | None \<Rightarrow> initialMessages)
                prompt) = Inr resp"
      and "llm_parseResponse env resp = final_answer ans"
  shows "run (Suc fuel) env initialMessages args cfg hooks agent w =
           Some (Resolved (createSuccessResult hooks ans
                   ((case prepareInitialMessages hooks of Some f \<Rightarrow> f initialMessages | None \<Rightarrow> initialMessages)
                    @ [finalMessage ans resp]) FINAL_ANSWER),
                 tick (beginIteration (loopCtxOf env args cfg hooks agent) 0
                         (case prepareInitialMessages hooks of
                            Some f \<Rightarrow> f initialMessages | None \<Rightarrow> initialMessages) w))"
proof -
  define ctx where "ctx = loopCtxOf env args cfg hooks agent"
  define start where "start = (case prepareInitialMessages hooks of
                                  Some f \<Rightarrow> f initialMessages | None \<Rightarrow> initialMessages)"
  have "iterationBody env ctx 0 start w =
          (Stop (Finished (Resolved (createSuccessResult hooks ans (start @ [finalMessage ans resp])
                                       FINAL_ANSWER))),
           tick (beginIteration ctx 0 start w))"
    using assms(2-4)
    by (simp add: iterationBody_def iterationPrompt_def Let_def ctx_def start_def)
  then have "agentLoop (Suc fuel) env ctx 0 start w =
          Some (Finished (Resolved (createSuccessResult hooks ans (start @ [finalMessage ans resp])
                                       FINAL_ANSWER)),
                tick (beginIteration ctx 0 start w))"
    using assms(1) by (simp add: agentLoop_step ctx_def)
  then show ?thesis
    unfolding ctx_def start_def by (rule run_Finished)
qed

lemma run_unknown_tool:
  assumes "lessThanNumber 0 (maxIterations cfg)"
      and "enhancePromptWithPageContext env (clock w)
             (systemPrompt cfg @ iterationInfo env 0 (maxIterations cfg)) = Inr prompt"
      and "llm_call env (clock w + 1)
             (llmRequest env (loopCtxOf env args cfg hooks agent)
                (case prepareInitialMessages hooks of Some f \<Rightarrow> f initialMessages | None \<Rightarrow> initialMessages)
                prompt) = Inr resp"
      and "llm_parseResponse env resp = tool_call (JStr name) callArgs"
      and "fst (buildTools env (tools cfg) agent) name = None"
  shows "run (Suc fuel) env initialMessages args cfg hooks agent w =
           Some (Resolved (createErrorResult hooks
                   (''Agent loop error: Agent requested unknown tool: '' @ name)
                   ((case prepareInitialMessages hooks of Some f \<Rightarrow> f initialMessages | None \<Rightarrow> initialMessages)
                    @ [ModelChatMessage ActionTool (JStr name) callArgs (Some (randomUUID env (clock w + 2)))
                         None False (resp_reasoning resp),
                       systemErrorMessage (''Agent loop error: Agent requested unknown tool: '' @ name)])
                   ERROR),
                 tick (tick (beginIteration (loopCtxOf env args cfg hooks agent) 0
                         (case prepareInitialMessages hooks of
                            Some f \<Rightarrow> f initialMessages | None \<Rightarrow> initialMessages) w)))"
proof -
  define ctx where "ctx = loopCtxOf env args cfg hooks agent"
  define start where "start = (case prepareInitialMessages hooks of
                                  Some f \<Rightarrow> f initialMessages | None \<Rightarrow> initialMessages)"
  have unknown: "toolMapGet (lc_toolMap ctx) (JStr name) = None"
    using assms(5) by (simp add: toolMapGet_def ctx_def lc_tools_loopCtxOf)
  have "iterationBody env ctx 0 start w =
          (Stop (Finished (Resolved (createErrorResult hooks
                   (''Agent loop error: Agent requested unknown tool: '' @ name)
                   (start @ [ModelChatMessage ActionTool (JStr name) callArgs
                               (Some (randomUUID env (clock w + 2))) None False (resp_reasoning resp),
                             systemErrorMessage (''Agent loop error: Agent requested unknown tool: '' @ name)])
                   ERROR))),
           tick (tick (beginIteration ctx 0 start w)))"
    using assms(2-4) unknown
    by (simp add: iterationBody_def iterationPrompt_def processToolCall_def loopError_def loopCaught_def
          Let_def ctx_def start_def numeral_2_eq_2)
  then have "agentLoop (Suc fuel) env ctx 0 start w =
          Some (Finished (Resolved (createErrorResult hooks
                   (''Agent loop error: Agent requested unknown tool: '' @ name)
                   (start @ [ModelChatMessage ActionTool (JStr name) callArgs
                               (Some (randomUUID env (clock w + 2))) None False (resp_reasoning resp),
                             systemErrorMessage (''Agent loop error: Agent requested unknown tool: '' @ name)])
                   ERROR)),
           tick (tick (beginIteration ctx 0 start w)))"
    using assms(1) by (simp add: agentLoop_step ctx_def)
  then show ?thesis
    unfolding ctx_def start_def by (rule run_Finished)
qed

text \<open>
  Claim C7, as the code has it. An agent has a handoff rule \<open>h\<close> whose target is not in
  the registry. The rule is skipped when the tools are built: the tool map and the tool
  schemas of the run are those of the agent without the rule. With a positive budget the
  first iteration calls the LLM, with those schemas in the request, and the reply decides:
  a final answer is returned as the success of the run, and a call of
  \<^verbatim>\<open>handoff_to_\<close> with the missing target, when no configured tool has that name, ends
  the run with the error of an unknown tool. When the rule has the trigger
  \<^verbatim>\<open>max_iterations\<close> and is the first such rule, the missing target is reported after
  the budget is used up: if the iterations are ordinary tool calls, the run returns the
  error result for the missing target on the log of those iterations.
\<close>

theorem C7_unregistered_target_starts:
  assumes "getRegisteredTool env (targetAgentName h) = None"
      and "cfg_handoffs (config agent) = Some (pre @ h # post)"
  shows "buildTools env (tools cfg) (Some agent) =
           buildTools env (tools cfg)
             (Some (agent\<lparr>config := (config agent)\<lparr>cfg_handoffs := Some (pre @ post)\<rparr>\<rparr>))
       \<and> (lessThanNumber 0 (maxIterations cfg)
          \<and> enhancePromptWithPageContext env (clock w)
               (systemPrompt cfg @ iterationInfo env 0 (maxIterations cfg)) = Inr prompt
          \<and> llm_call env (clock w + 1)
               \<lparr>req_provider = getProviderForModel env (modelName cfg), req_model = modelName cfg,
                req_messages = (case prepareInitialMessages hooks of
                                  Some f \<Rightarrow> f initialMessages | None \<Rightarrow> initialMessages),
                req_systemPrompt = prompt,
                req_tools = snd (buildTools env (tools cfg)
                                   (Some (agent\<lparr>config := (config agent)\<lparr>cfg_handoffs := Some (pre @ post)\<rparr>\<rparr>))),
                req_temperature = temperatureOrZero (temperature cfg)\<rparr> = Inr resp
          \<and> llm_parseResponse env resp = final_answer ans
          \<longrightarrow> run (Suc fuel) env initialMessages args cfg hooks (Some agent) w =
                Some (Resolved (createSuccessResult hooks ans
                        ((case prepareInitialMessages hooks of
                            Some f \<Rightarrow> f initialMessages | None \<Rightarrow> initialMessages)
                         @ [finalMessage ans resp]) FINAL_ANSWER),
                      tick (beginIteration (loopCtxOf env args cfg hooks (Some agent)) 0
                              (case prepareInitialMessages hooks of
                                 Some f \<Rightarrow> f initialMessages | None \<Rightarrow> initialMessages) w)))
       \<and> (lessThanNumber 0 (maxIterations cfg)
          \<and> enhancePromptWithPageContext env (clock w)
               (systemPrompt cfg @ iterationInfo env 0 (maxIterations cfg)) = Inr prompt
          \<and> llm_call env (clock w + 1)
               \<lparr>req_provider = getProviderForModel env (modelName cfg), req_model = modelName cfg,
                req_messages = (case prepareInitialMessages hooks of
                                  Some f \<Rightarrow> f initialMessages | None \<Rightarrow> initialMessages),
                req_systemPrompt = prompt,
                req_tools = snd (buildTools env (tools cfg)
                                   (Some (agent\<lparr>config := (config agent)\<lparr>cfg_handoffs := Some (pre @ post)\<rparr>\<rparr>))),
                req_temperature = temperatureOrZero (temperature cfg)\<rparr> = Inr resp
          \<and> llm_parseResponse env resp = tool_call (JStr (handoffToolName (targetAgentName h))) callArgs
          \<and> (\<forall>t \<in> set (tools cfg). tool_name (asTool t) \<noteq> handoffToolName (targetAgentName h))
          \<longrightarrow> run (Suc fuel) env initialMessages args cfg hooks (Some agent) w =
                Some (Resolved (createErrorResult hooks
                        (''Agent loop error: Agent requested unknown tool: ''
                         @ handoffToolName (targetAgentName h))
                        ((case prepareInitialMessages hooks of
                            Some f \<Rightarrow> f initialMessages | None \<Rightarrow> initialMessages)
                         @ [ModelChatMessage ActionTool (JStr (handoffToolName (targetAgentName h))) callArgs
                              (Some (randomUUID env (clock w + 2))) None False (resp_reasoning resp),
                            systemErrorMessage
                              (''Agent loop error: Agent requested unknown tool: ''
                               @ handoffToolName (targetAgentName h))])
                        ERROR),
                      tick (tick (beginIteration (loopCtxOf env args cfg hooks (Some agent)) 0
                              (case prepareInitialMessages hooks of
                                 Some f \<Rightarrow> f initialMessages | None \<Rightarrow> initialMessages) w))))
       \<and> (trigger h = Some MAX_ITERATIONS_TRIGGER
          \<and> (\<forall>h' \<in> set pre. trigger h' \<noteq> Some MAX_ITERATIONS_TRIGGER)
          \<and> maxIterations cfg = Finite r
          \<and> ordinaryIterations (nat \<lceil>r\<rceil>) env (loopCtxOf env args cfg hooks (Some agent)) 0
               (case prepareInitialMessages hooks of Some f \<Rightarrow> f initialMessages | None \<Rightarrow> initialMessages) w
          \<and> nat \<lceil>r\<rceil> \<le> fuel
          \<longrightarrow> (\<exists>finalLog w1.
                 length finalLog =
                   length (case prepareInitialMessages hooks of
                             Some f \<Rightarrow> f initialMessages | None \<Rightarrow> initialMessages) + 2 * nat \<lceil>r\<rceil>
               \<and> iterationsStarted w1 = iterationsStarted w + nat \<lceil>r\<rceil>
               \<and> run fuel env initialMessages args cfg hooks (Some agent) w =
                   Some (Resolved (createErrorResult hooks (targetNotFoundMessage (targetAgentName h))
                                     finalLog ERROR),
                         emit (HandoffTargetMissing (targetAgentName h))
                           (emit (MaxIterationsReached (agentNameOf (Some agent)) (Finite r)) w1))))"
proof -
  define start where "start = (case prepareInitialMessages hooks of
                                  Some f \<Rightarrow> f initialMessages | None \<Rightarrow> initialMessages)"
  define agent' where "agent' = agent\<lparr>config := (config agent)\<lparr>cfg_handoffs := Some (pre @ post)\<rparr>\<rparr>"
  define ctx where "ctx = loopCtxOf env args cfg hooks (Some agent)"
  have skip: "buildTools env (tools cfg) (Some agent) = buildTools env (tools cfg) (Some agent')"
    unfolding agent'_def by (rule buildTools_skip [OF assms])
  have request: "llmRequest env ctx start prompt =
               \<lparr>req_provider = getProviderForModel env (modelName cfg), req_model = modelName cfg,
                req_messages = start, req_systemPrompt = prompt,
                req_tools = snd (buildTools env (tools cfg) (Some agent')),
                req_temperature = temperatureOrZero (temperature cfg)\<rparr>" for prompt
    by (simp add: llmRequest_def ctx_def lc_tools_loopCtxOf skip)
  have answer: "run (Suc fuel) env initialMessages args cfg hooks (Some agent) w =
                Some (Resolved (createSuccessResult hooks ans (start @ [finalMessage ans resp]) FINAL_ANSWER),
                      tick (beginIteration ctx 0 start w))"
    if "lessThanNumber 0 (maxIterations cfg)"
       "enhancePromptWithPageContext env (clock w)
               (systemPrompt cfg @ iterationInfo env 0 (maxIterations cfg)) = Inr prompt"
       "llm_call env (clock w + 1)
               \<lparr>req_provider = getProviderForModel env (modelName cfg), req_model = modelName cfg,
                req_messages = start, req_systemPrompt = prompt,
                req_tools = snd (buildTools env (tools cfg) (Some agent')),
                req_temperature = temperatureOrZero (temperature cfg)\<rparr> = Inr resp"
       "llm_parseResponse env resp = final_answer ans"
    using run_final_answer [where args = args and hooks = hooks and agent = "Some agent"
            and initialMessages = initialMessages and fuel = fuel, OF that(1,2) _ that(4)]
      that(3) request [of prompt]
    by (simp add: ctx_def start_def)
  have unknown: "run (Suc fuel) env initialMessages args cfg hooks (Some agent) w =
                Some (Resolved (createErrorResult hooks
                        (''Agent loop error: Agent requested unknown tool: ''
                         @ handoffToolName (targetAgentName h))
                        (start
                         @ [ModelChatMessage ActionTool (JStr (handoffToolName (targetAgentName h))) callArgs
                              (Some (randomUUID env (clock w + 2))) None False (resp_reasoning resp),
                            systemErrorMessage
                              (''Agent loop error: Agent requested unknown tool: ''
                               @ handoffToolName (targetAgentName h))])
                        ERROR),
                      tick (tick (beginIteration ctx 0 start w)))"
    if "lessThanNumber 0 (maxIterations cfg)"
       "enhancePromptWithPageContext env (clock w)
               (systemPrompt cfg @ iterationInfo env 0 (maxIterations cfg)) = Inr prompt"
       "llm_call env (clock w + 1)
               \<lparr>req_provider = getProviderForModel env (modelName cfg), req_model = modelName cfg,
                req_messages = start, req_systemPrompt = prompt,
                req_tools = snd (buildTools env (tools cfg) (Some agent')),
                req_temperature = temperatureOrZero (temperature cfg)\<rparr> = Inr resp"
       "llm_parseResponse env resp = tool_call (JStr (handoffToolName (targetAgentName h))) callArgs"
       "\<forall>t \<in> set (tools cfg). tool_name (asTool t) \<noteq> handoffToolName (targetAgentName h)"
    using run_unknown_tool [where args = args and hooks = hooks and agent = "Some agent"
            and initialMessages = initialMessages and fuel = fuel,
            OF that(1,2) _ that(4) buildTools_no_handoff_tool [OF assms(1) that(5)]]
      that(3) request [of prompt]
    by (simp add: ctx_def start_def)
  have missing: "\<exists>finalLog w1.
                 length finalLog = length start + 2 * nat \<lceil>r\<rceil>
               \<and> iterationsStarted w1 = iterationsStarted w + nat \<lceil>r\<rceil>
               \<and> run fuel env initialMessages args cfg hooks (Some agent) w =
                   Some (Resolved (createErrorResult hooks (targetNotFoundMessage (targetAgentName h))
                                     finalLog ERROR),
                         emit (HandoffTargetMissing (targetAgentName h))
                           (emit (MaxIterationsReached (agentNameOf (Some agent)) (Finite r)) w1))"
    if "trigger h = Some MAX_ITERATIONS_TRIGGER"
       "\<forall>h' \<in> set pre. trigger h' \<noteq> Some MAX_ITERATIONS_TRIGGER"
       "maxIterations cfg = Finite r"
       "ordinaryIterations (nat \<lceil>r\<rceil>) env ctx 0 start w"
       "nat \<lceil>r\<rceil> \<le> fuel"
  proof -
    note given = that
    have budget: "maxIterations (lc_config ctx) = Finite r"
      using given(3) by (simp add: ctx_def)
    obtain finalLog w1 where
      loop: "agentLoop fuel env ctx 0 start w = Some (afterLoop env ctx finalLog w1)"
      and cnt: "iterationsStarted w1 = iterationsStarted w + nat \<lceil>r\<rceil>"
      and len: "length finalLog = length start + 2 * nat \<lceil>r\<rceil>"
      using agentLoop_ordinaryIterations [OF budget given(4) _ given(5)] by auto
    have "run fuel env initialMessages args cfg hooks (Some agent) w =
            executeHandoff fuel env finalLog args h agent (apiKey cfg) (modelName cfg) (maxIterations cfg)
              (temperatureOrZero (temperature cfg)) (createSuccessResult hooks) (createErrorResult hooks)
              None (emit (MaxIterationsReached (agentNameOf (Some agent)) (maxIterations cfg)) w1)"
      using run_exhausted_rule [OF loop [unfolded ctx_def start_def]
              findMaxIterHandoffConfig_first [OF assms(2) given(1,2)]] .
    then have "run fuel env initialMessages args cfg hooks (Some agent) w =
                   Some (Resolved (createErrorResult hooks (targetNotFoundMessage (targetAgentName h))
                                     finalLog ERROR),
                         emit (HandoffTargetMissing (targetAgentName h))
                           (emit (MaxIterationsReached (agentNameOf (Some agent)) (Finite r)) w1))"
      by (simp add: executeHandoff_unregistered [OF assms(1)] given(3))
    with cnt len show ?thesis
      by blast
  qed
  from skip answer unknown missing show ?thesis
    unfolding ctx_def start_def agent'_def by (intro conjI impI) blast+
qed

text \<open>The theorem of C7 for the agent A, whose handoff target B is not registered: with
  an LLM that answers, with an LLM that calls \<^verbatim>\<open>handoff_to_B\<close>, and for a second rule
  with the trigger \<^verbatim>\<open>max_iterations\<close> and a budget of one iteration.\<close>

theorem C7_unregistered_target_starts_witness:
  "getRegisteredTool answeringEnv (targetAgentName handoffToB) = None
   \<and> cfg_handoffs (config agentA) = Some ([] @ handoffToB # [])
   \<and> lessThanNumber 0 (maxIterations (sampleConfig [] (Finite 3)))
   \<and> enhancePromptWithPageContext answeringEnv (clock world0)
        (systemPrompt (sampleConfig [] (Finite 3)) @ iterationInfo answeringEnv 0 (Finite 3))
       = Inr (''You are an agent.'' @ iterationInfo answeringEnv 0 (Finite 3))
   \<and> llm_call answeringEnv (clock world0 + 1)
        \<lparr>req_provider = ''openai'', req_model = ''model'', req_messages = [UserChatMessage ''2+2?''],
         req_systemPrompt = ''You are an agent.'' @ iterationInfo answeringEnv 0 (Finite 3),
         req_tools = [], req_temperature = 0\<rparr> = Inr (textResponse ''4'')
   \<and> llm_parseResponse answeringEnv (textResponse ''4'') = final_answer ''4''
   \<and> run 1 answeringEnv [UserChatMessage ''2+2?''] JNull (sampleConfig [] (Finite 3)) sampleHooks (Some agentA) world0
       = Some (Resolved (sampleCreateSuccessResult ''4''
                 [UserChatMessage ''2+2?'',
                  ModelChatMessage ActionFinal JUndefined JUndefined None (Some ''4'') True None]
                 FINAL_ANSWER),
               \<lparr>clock = 2, events = [IterationStarted ''A'' 1 (Finite 3), LLMCalling ''A'' 1]\<rparr>)
   \<and> getRegisteredTool handingOffEnv (targetAgentName handoffToB) = None
   \<and> llm_call handingOffEnv (clock world0 + 1)
        \<lparr>req_provider = ''openai'', req_model = ''model'', req_messages = [UserChatMessage ''go''],
         req_systemPrompt = ''You are an agent.'' @ iterationInfo handingOffEnv 0 (Finite 3),
         req_tools = [], req_temperature = 0\<rparr> = Inr (functionCallResponse ''handoff_to_B'' (JObj []))
   \<and> llm_parseResponse handingOffEnv (functionCallResponse ''handoff_to_B'' (JObj []))
       = tool_call (JStr (handoffToolName (targetAgentName handoffToB))) (JObj [])
   \<and> tools (sampleConfig [] (Finite 3)) = []
   \<and> run 1 handingOffEnv [UserChatMessage ''go''] JNull (sampleConfig [] (Finite 3)) sampleHooks (Some agentA) world0
       = Some (Resolved (sampleCreateErrorResult ''Agent loop error: Agent requested unknown tool: handoff_to_B''
                 [UserChatMessage ''go'',
                  ModelChatMessage ActionTool (JStr ''handoff_to_B'') (JObj []) (Some ''uuid-2'') None False None,
                  systemErrorMessage ''Agent loop error: Agent requested unknown tool: handoff_to_B'']
                 ERROR),
               \<lparr>clock = 3, events = [IterationStarted ''A'' 1 (Finite 3), LLMCalling ''A'' 1]\<rparr>)
   \<and> getRegisteredTool noopEnv (targetAgentName maxIterationsToB) = None
   \<and> cfg_handoffs (config agentWithMaxIterationsRule) = Some ([handoffToB] @ maxIterationsToB # [])
   \<and> trigger maxIterationsToB = Some MAX_ITERATIONS_TRIGGER
   \<and> trigger handoffToB = None
   \<and> maxIterations (sampleConfig [PlainTool errorTool] (Finite 1)) = Finite 1
   \<and> ordinaryIterations (nat \<lceil>1 :: rat\<rceil>) noopEnv
        (loopCtxOf noopEnv JNull (sampleConfig [PlainTool errorTool] (Finite 1)) sampleHooks
           (Some agentWithMaxIterationsRule)) 0 [UserChatMessage ''go''] world0
   \<and> nat \<lceil>1 :: rat\<rceil> \<le> 1
   \<and> (\<exists>finalLog w1.
         length finalLog = 3
       \<and> iterationsStarted w1 = iterationsStarted world0 + 1
       \<and> run 1 noopEnv [UserChatMessage ''go''] JNull (sampleConfig [PlainTool errorTool] (Finite 1))
            sampleHooks (Some agentWithMaxIterationsRule) world0
          = Some (Resolved (sampleCreateErrorResult (targetNotFoundMessage ''B'') finalLog ERROR),
                  emit (HandoffTargetMissing ''B'') (emit (MaxIterationsReached ''A'' (Finite 1)) w1)))"
proof -
  have unreg: "getRegisteredTool answeringEnv (targetAgentName handoffToB) = None"
    by (simp add: answeringEnv_def sampleEnv_def)
  have rules: "cfg_handoffs (config agentA) = Some ([] @ handoffToB # [])"
    by (simp add: agentA_def sampleAgent_def)
  have budget: "lessThanNumber 0 (maxIterations (sampleConfig [] (Finite 3)))"
    by (simp add: sampleConfig_def)
  have mx: "maxIterations (sampleConfig [] (Finite 3)) = Finite 3"
    by (simp add: sampleConfig_def)
  have prompt: "enhancePromptWithPageContext answeringEnv (clock world0)
        (systemPrompt (sampleConfig [] (Finite 3)) @ iterationInfo answeringEnv 0 (Finite 3))
       = Inr (''You are an agent.'' @ iterationInfo answeringEnv 0 (Finite 3))"
    by (simp add: answeringEnv_def sampleEnv_def sampleConfig_def)
  have reply: "llm_call answeringEnv (clock world0 + 1)
        \<lparr>req_provider = ''openai'', req_model = ''model'', req_messages = [UserChatMessage ''2+2?''],
         req_systemPrompt = ''You are an agent.'' @ iterationInfo answeringEnv 0 (Finite 3),
         req_tools = [], req_temperature = 0\<rparr> = Inr (textResponse ''4'')"
    by (simp add: answeringEnv_def sampleEnv_def answeringLLM_def)
  have parsed: "llm_parseResponse answeringEnv (textResponse ''4'') = final_answer ''4''"
    by code_simp
  have nameA: "agentNameOf (Some agentA) = ''A''"
    by (simp add: agentNameOf_def agentA_def sampleAgent_def)
  have p3: "llm_call answeringEnv (clock world0 + 1)
               \<lparr>req_provider = getProviderForModel answeringEnv (modelName (sampleConfig [] (Finite 3))),
                req_model = modelName (sampleConfig [] (Finite 3)),
                req_messages = (case prepareInitialMessages sampleHooks of
                                  Some f \<Rightarrow> f [UserChatMessage ''2+2?''] | None \<Rightarrow> [UserChatMessage ''2+2?'']),
                req_systemPrompt = ''You are an agent.'' @ iterationInfo answeringEnv 0 (Finite 3),
                req_tools = snd (buildTools answeringEnv (tools (sampleConfig [] (Finite 3)))
                                   (Some (agentA\<lparr>config := (config agentA)\<lparr>cfg_handoffs := Some ([] @ [])\<rparr>\<rparr>))),
                req_temperature = temperatureOrZero (temperature (sampleConfig [] (Finite 3)))\<rparr>
             = Inr (textResponse ''4'')"
    by (simp add: answeringEnv_def sampleEnv_def answeringLLM_def)
  have p2: "enhancePromptWithPageContext answeringEnv (clock world0)
               (systemPrompt (sampleConfig [] (Finite 3))
                @ iterationInfo answeringEnv 0 (maxIterations (sampleConfig [] (Finite 3))))
             = Inr (''You are an agent.'' @ iterationInfo answeringEnv 0 (Finite 3))"
    using prompt by (simp add: mx)
  note inst1 = C7_unregistered_target_starts [OF unreg rules, where cfg = "sampleConfig [] (Finite 3)"
        and w = world0 and hooks = sampleHooks and initialMessages = "[UserChatMessage ''2+2?'']"
        and prompt = "''You are an agent.'' @ iterationInfo answeringEnv 0 (Finite 3)"
        and resp = "textResponse ''4''" and ans = "''4''" and fuel = 0 and args = JNull,
        THEN conjunct2, THEN conjunct1]
  have "run (Suc 0) answeringEnv [UserChatMessage ''2+2?''] JNull (sampleConfig [] (Finite 3)) sampleHooks
          (Some agentA) world0
       = Some (Resolved (createSuccessResult sampleHooks ''4''
                 ((case prepareInitialMessages sampleHooks of
                     Some f \<Rightarrow> f [UserChatMessage ''2+2?''] | None \<Rightarrow> [UserChatMessage ''2+2?''])
                  @ [finalMessage ''4'' (textResponse ''4'')]) FINAL_ANSWER),
               tick (beginIteration (loopCtxOf answeringEnv JNull (sampleConfig [] (Finite 3)) sampleHooks
                                       (Some agentA)) 0
                       (case prepareInitialMessages sampleHooks of
                          Some f \<Rightarrow> f [UserChatMessage ''2+2?''] | None \<Rightarrow> [UserChatMessage ''2+2?''])
                       world0))"
    by (rule mp [OF inst1]) (intro conjI budget p2 p3 parsed)
  then have first: "run 1 answeringEnv [UserChatMessage ''2+2?''] JNull (sampleConfig [] (Finite 3)) sampleHooks (Some agentA) world0
       = Some (Resolved (sampleCreateSuccessResult ''4''
                 [UserChatMessage ''2+2?'',
                  ModelChatMessage ActionFinal JUndefined JUndefined None (Some ''4'') True None]
                 FINAL_ANSWER),
               \<lparr>clock = 2, events = [IterationStarted ''A'' 1 (Finite 3), LLMCalling ''A'' 1]\<rparr>)"
    by (simp add: mx nameA sampleHooks_def finalMessage_def textResponse_def tick_def beginIteration_def
          emit_def world0_def)
  have unreg2: "getRegisteredTool handingOffEnv (targetAgentName handoffToB) = None"
    by (simp add: handingOffEnv_def sampleEnv_def)
  have prompt2: "enhancePromptWithPageContext handingOffEnv (clock world0)
        (systemPrompt (sampleConfig [] (Finite 3)) @ iterationInfo handingOffEnv 0 (Finite 3))
       = Inr (''You are an agent.'' @ iterationInfo handingOffEnv 0 (Finite 3))"
    by (simp add: handingOffEnv_def sampleEnv_def sampleConfig_def)
  have reply2: "llm_call handingOffEnv (clock world0 + 1)
        \<lparr>req_provider = ''openai'', req_model = ''model'', req_messages = [UserChatMessage ''go''],
         req_systemPrompt = ''You are an agent.'' @ iterationInfo handingOffEnv 0 (Finite 3),
         req_tools = [], req_temperature = 0\<rparr> = Inr (functionCallResponse ''handoff_to_B'' (JObj []))"
    by (simp add: handingOffEnv_def sampleEnv_def callingLLM_def)
  have parsed2: "llm_parseResponse handingOffEnv (functionCallResponse ''handoff_to_B'' (JObj []))
       = tool_call (JStr (handoffToolName (targetAgentName handoffToB))) (JObj [])"
    by (simp add: handingOffEnv_def sampleEnv_def functionCallResponse_def parseResponse_def
          handoffToolName_def handoffToB_def)
  have notool: "\<forall>t \<in> set (tools (sampleConfig [] (Finite 3))).
         tool_name (asTool t) \<noteq> handoffToolName (targetAgentName handoffToB)"
    by (simp add: sampleConfig_def)
  have uuid: "randomUUID handingOffEnv (Suc (Suc 0)) = ''uuid-2''"
    by code_simp
  have q3: "llm_call handingOffEnv (clock world0 + 1)
               \<lparr>req_provider = getProviderForModel handingOffEnv (modelName (sampleConfig [] (Finite 3))),
                req_model = modelName (sampleConfig [] (Finite 3)),
                req_messages = (case prepareInitialMessages sampleHooks of
                                  Some f \<Rightarrow> f [UserChatMessage ''go''] | None \<Rightarrow> [UserChatMessage ''go'']),
                req_systemPrompt = ''You are an agent.'' @ iterationInfo handingOffEnv 0 (Finite 3),
                req_tools = snd (buildTools handingOffEnv (tools (sampleConfig [] (Finite 3)))
                                   (Some (agentA\<lparr>config := (config agentA)\<lparr>cfg_handoffs := Some ([] @ [])\<rparr>\<rparr>))),
                req_temperature = temperatureOrZero (temperature (sampleConfig [] (Finite 3)))\<rparr>
             = Inr (functionCallResponse ''handoff_to_B'' (JObj []))"
    by (simp add: handingOffEnv_def sampleEnv_def callingLLM_def)
  have q2: "enhancePromptWithPageContext handingOffEnv (clock world0)
               (systemPrompt (sampleConfig [] (Finite 3))
                @ iterationInfo handingOffEnv 0 (maxIterations (sampleConfig [] (Finite 3))))
             = Inr (''You are an agent.'' @ iterationInfo handingOffEnv 0 (Finite 3))"
    using prompt2 by (simp add: mx)
  note inst2 = C7_unregistered_target_starts [OF unreg2 rules, where cfg = "sampleConfig [] (Finite 3)"
        and w = world0 and hooks = sampleHooks and initialMessages = "[UserChatMessage ''go'']"
        and prompt = "''You are an agent.'' @ iterationInfo handingOffEnv 0 (Finite 3)"
        and resp = "functionCallResponse ''handoff_to_B'' (JObj [])" and callArgs = "JObj []"
        and fuel = 0 and args = JNull,
        THEN conjunct2, THEN conjunct2, THEN conjunct1]
  have "run (Suc 0) handingOffEnv [UserChatMessage ''go''] JNull (sampleConfig [] (Finite 3)) sampleHooks
          (Some agentA) world0
       = Some (Resolved (createErrorResult sampleHooks
                        (''Agent loop error: Agent requested unknown tool: ''
                         @ handoffToolName (targetAgentName handoffToB))
                        ((case prepareInitialMessages sampleHooks of
                            Some f \<Rightarrow> f [UserChatMessage ''go''] | None \<Rightarrow> [UserChatMessage ''go''])
                         @ [ModelChatMessage ActionTool (JStr (handoffToolName (targetAgentName handoffToB))) (JObj [])
                              (Some (randomUUID handingOffEnv (clock world0 + 2))) None False
                              (resp_reasoning (functionCallResponse ''handoff_to_B'' (JObj []))),
                            systemErrorMessage
                              (''Agent loop error: Agent requested unknown tool: ''
                               @ handoffToolName (targetAgentName handoffToB))])
                        ERROR),
                      tick (tick (beginIteration (loopCtxOf handingOffEnv JNull (sampleConfig [] (Finite 3))
                                                    sampleHooks (Some agentA)) 0
                              (case prepareInitialMessages sampleHooks of
                                 Some f \<Rightarrow> f [UserChatMessage ''go''] | None \<Rightarrow> [UserChatMessage ''go''])
                              world0)))"
    by (rule mp [OF inst2]) (intro conjI budget q2 q3 parsed2 notool)
  then have second: "run 1 handingOffEnv [UserChatMessage ''go''] JNull (sampleConfig [] (Finite 3)) sampleHooks (Some agentA) world0
       = Some (Resolved (sampleCreateErrorResult ''Agent loop error: Agent requested unknown tool: handoff_to_B''
                 [UserChatMessage ''go'',
                  ModelChatMessage ActionTool (JStr ''handoff_to_B'') (JObj []) (Some ''uuid-2'') None False None,
                  systemErrorMessage ''Agent loop error: Agent requested unknown tool: handoff_to_B'']
                 ERROR),
               \<lparr>clock = 3, events = [IterationStarted ''A'' 1 (Finite 3), LLMCalling ''A'' 1]\<rparr>)"
    by (simp add: mx nameA uuid sampleHooks_def functionCallResponse_def tick_def beginIteration_def
          emit_def world0_def handoffToolName_def handoffToB_def)
  have unreg3: "getRegisteredTool noopEnv (targetAgentName maxIterationsToB) = None"
    by (simp add: noopEnv_def sampleEnv_def)
  have rules3: "cfg_handoffs (config agentWithMaxIterationsRule) = Some ([handoffToB] @ maxIterationsToB # [])"
    by (simp add: agentWithMaxIterationsRule_def sampleAgent_def)
  have trig: "trigger maxIterationsToB = Some MAX_ITERATIONS_TRIGGER"
    by (simp add: maxIterationsToB_def)
  have earlier: "\<forall>h' \<in> set [handoffToB]. trigger h' \<noteq> Some MAX_ITERATIONS_TRIGGER"
    by (simp add: handoffToB_def)
  have mx3: "maxIterations (sampleConfig [PlainTool errorTool] (Finite 1)) = Finite 1"
    by (simp add: sampleConfig_def)
  have one: "nat \<lceil>1 :: rat\<rceil> = 1"
    by simp
  have ordinary: "ordinaryIterations (nat \<lceil>1 :: rat\<rceil>) noopEnv
        (loopCtxOf noopEnv JNull (sampleConfig [PlainTool errorTool] (Finite 1)) sampleHooks
           (Some agentWithMaxIterationsRule)) 0 [UserChatMessage ''go''] world0"
    unfolding one by code_simp
  have fuel3: "nat \<lceil>1 :: rat\<rceil> \<le> 1"
    by simp
  have nameA3: "agentNameOf (Some agentWithMaxIterationsRule) = ''A''"
    by (simp add: agentNameOf_def agentWithMaxIterationsRule_def sampleAgent_def)
  have third: "\<exists>finalLog w1.
         length finalLog = 3
       \<and> iterationsStarted w1 = iterationsStarted world0 + 1
       \<and> run 1 noopEnv [UserChatMessage ''go''] JNull (sampleConfig [PlainTool errorTool] (Finite 1))
            sampleHooks (Some agentWithMaxIterationsRule) world0
          = Some (Resolved (sampleCreateErrorResult (targetNotFoundMessage ''B'') finalLog ERROR),
                  emit (HandoffTargetMissing ''B'') (emit (MaxIterationsReached ''A'' (Finite 1)) w1))"
  proof -
    from C7_unregistered_target_starts [OF unreg3 rules3, where cfg = "sampleConfig [PlainTool errorTool] (Finite 1)"
        and w = world0 and hooks = sampleHooks and initialMessages = "[UserChatMessage ''go'']"
        and r = 1 and fuel = 1 and args = JNull,
        THEN conjunct2, THEN conjunct2, THEN conjunct2]
      trig earlier mx3 ordinary fuel3
    obtain finalLog w1 where
      len: "length finalLog = length (case prepareInitialMessages sampleHooks of
                   Some f \<Rightarrow> f [UserChatMessage ''go''] | None \<Rightarrow> [UserChatMessage ''go'']) + 2 * nat \<lceil>1 :: rat\<rceil>"
      and cnt: "iterationsStarted w1 = iterationsStarted world0 + nat \<lceil>1 :: rat\<rceil>"
      and result: "run 1 noopEnv [UserChatMessage ''go''] JNull (sampleConfig [PlainTool errorTool] (Finite 1))
            sampleHooks (Some agentWithMaxIterationsRule) world0
          = Some (Resolved (createErrorResult sampleHooks (targetNotFoundMessage (targetAgentName maxIterationsToB))
                              finalLog ERROR),
                  emit (HandoffTargetMissing (targetAgentName maxIterationsToB))
                    (emit (MaxIterationsReached (agentNameOf (Some agentWithMaxIterationsRule)) (Finite 1)) w1))"
      by (auto simp add: sampleHooks_def)
    have "length finalLog = 3"
      using len by (simp add: sampleHooks_def)
    moreover have "iterationsStarted w1 = iterationsStarted world0 + 1"
      using cnt by simp
    moreover have "run 1 noopEnv [UserChatMessage ''go''] JNull (sampleConfig [PlainTool errorTool] (Finite 1))
            sampleHooks (Some agentWithMaxIterationsRule) world0
          = Some (Resolved (sampleCreateErrorResult (targetNotFoundMessage ''B'') finalLog ERROR),
                  emit (HandoffTargetMissing ''B'') (emit (MaxIterationsReached ''A'' (Finite 1)) w1))"
      using result by (simp add: nameA3 sampleHooks_def maxIterationsToB_def)
    ultimately show ?thesis
      by blast
  qed
  have notools: "tools (sampleConfig [] (Finite 3)) = []"
    by (simp add: sampleConfig_def)
  have untriggered: "trigger handoffToB = None"
    by (simp add: handoffToB_def)
  from unreg rules budget prompt reply parsed first unreg2 reply2 parsed2 notools second
       unreg3 rules3 trig untriggered mx3 ordinary fuel3 third
  show ?thesis
    by (intro conjI)
qed

text \<open>
  Claim C7 as stated fails: the agent A refers to the unregistered target B, and its run
  starts and ends with the final answer of the LLM.
\<close>

theorem C7_unregistered_target_counterexample:
  "getRegisteredTool answeringEnv (targetAgentName handoffToB) = None
   \<and> cfg_handoffs (config agentA) = Some [handoffToB]
   \<and> run 1 answeringEnv [UserChatMessage ''2+2?''] JNull (sampleConfig [] (Finite 3)) sampleHooks (Some agentA) world0
     = Some (Resolved (sampleCreateSuccessResult ''4''
               [UserChatMessage ''2+2?'',
                ModelChatMessage ActionFinal JUndefined JUndefined None (Some ''4'') True None]
               FINAL_ANSWER),
             \<lparr>clock = 2, events = [IterationStarted ''A'' 1 (Finite 3), LLMCalling ''A'' 1]\<rparr>)"
  by code_simp

section \<open>Tool calls and their results in the final log\<close>

lemma takeWhile_before_model:
  assumes "isModelMessage c"
  shows "takeWhile (\<lambda>x. \<not> isModelMessage x) (xs @ c # ys) = takeWhile (\<lambda>x. \<not> isModelMessage x) xs"
  using assms by (induction xs) simp_all

lemma toolCallsAnswered_append_model:
  assumes "toolCallsAnswered xs" and "isModelMessage c" and "toolCallsAnswered (c # ys)"
  shows "toolCallsAnswered (xs @ c # ys)"
  using assms by (induction xs) (simp_all add: takeWhile_before_model)

lemma toolCallsAnswered_suffix:
  "toolCallsAnswered (xs @ ys) \<Longrightarrow> toolCallsAnswered ys"
  by (induction xs) simp_all

lemma toolResultsPreceded_append:
  "toolResultsPreceded before (xs @ ys) =
     (toolResultsPreceded before xs \<and> toolResultsPreceded (before @ xs) ys)"
  by (induction xs arbitrary: before) auto

lemma isModelTool_isModelMessage: "isModelTool c \<Longrightarrow> isModelMessage c"
  by (cases c) simp_all

lemma isModelFinal_isModelMessage: "isModelFinal c \<Longrightarrow> isModelMessage c"
  by (cases c) simp_all

lemma isModelFinal_not_tool: "isModelFinal c \<Longrightarrow> \<not> isModelTool c"
  by (cases c) auto

lemma isModelFinal_not_result: "isModelFinal c \<Longrightarrow> \<not> isToolResult c"
  by (cases c) auto

lemma isModelTool_not_result: "isModelTool c \<Longrightarrow> \<not> isToolResult c"
  by (cases c) auto

lemma answersTo_not_model: "answersTo c r \<Longrightarrow> \<not> isModelMessage r \<and> \<not> isModelTool r \<and> isToolResult r"
  by (cases r) (auto simp add: answersTo_def)

lemma toolCallsPaired_append_pair:
  assumes "toolCallsPaired xs" and "isModelTool c" and "answersTo c r"
  shows "toolCallsPaired (xs @ [c, r])"
proof -
  have "toolCallsAnswered [c, r]"
    using assms(2,3) answersTo_not_model [OF assms(3)] by simp
  then have "toolCallsAnswered (xs @ [c, r])"
    using assms(1,2) toolCallsAnswered_append_model [of xs c "[r]"]
    by (simp add: toolCallsPaired_def isModelTool_isModelMessage)
  moreover have "toolResultsPreceded [] (xs @ [c, r])"
    using assms by (auto simp add: toolCallsPaired_def toolResultsPreceded_append isModelTool_not_result)
  ultimately show ?thesis
    by (simp add: toolCallsPaired_def)
qed

lemma toolCallsPaired_append_final:
  assumes "toolCallsPaired xs" and "isModelFinal f"
  shows "toolCallsPaired (xs @ [f])"
proof -
  have "toolCallsAnswered [f]"
    using assms(2) by (simp add: isModelFinal_not_tool)
  then have "toolCallsAnswered (xs @ [f])"
    using assms toolCallsAnswered_append_model [of xs f "[]"]
    by (simp add: toolCallsPaired_def isModelFinal_isModelMessage)
  moreover have "toolResultsPreceded [] (xs @ [f])"
    using assms by (simp add: toolCallsPaired_def toolResultsPreceded_append isModelFinal_not_result)
  ultimately show ?thesis
    by (simp add: toolCallsPaired_def)
qed

text \<open>A log that ends with the synthetic error result, or with a tool call, is not
  paired.\<close>

lemma not_paired_systemError: "\<not> toolCallsPaired (xs @ [systemErrorMessage msg])"
  by (simp add: toolCallsPaired_def toolResultsPreceded_append systemErrorMessage_def answersTo_def
        list_ex_iff)

lemma not_paired_unanswered:
  assumes "isModelTool c"
  shows "\<not> toolCallsPaired (xs @ [c])"
proof
  assume "toolCallsPaired (xs @ [c])"
  then have "toolCallsAnswered [c]"
    using toolCallsAnswered_suffix [of xs "[c]"] by (simp add: toolCallsPaired_def)
  with assms show False
    by simp
qed

lemma loopCaught_Error:
  "loopCaught env ctx msgs (ThrownError n m) =
     Resolved (createErrorResult (lc_hooks ctx) (''Agent loop error: '' @ (if m \<noteq> [] then m else n))
                 (msgs @ [systemErrorMessage (''Agent loop error: '' @ (if m \<noteq> [] then m else n))]) ERROR)"
  by (simp add: loopCaught_def Let_def)

lemma toolOutcome_Inl:
  assumes "toolOutcome env r = Inl e"
  shows "\<exists>v. e = ThrownError ''TypeError'' (typeErrorMessage env v)"
proof (cases r)
  case (Inl t)
  with assms show ?thesis
    by (cases t) (auto simp add: toolOutcome_def messageOrString_def Let_def split: if_splits)
next
  case (Inr d)
  with assms show ?thesis
    by (auto simp add: toolOutcome_def Let_def split: if_splits)
qed

lemma processToolCall_outcome:
  assumes "processToolCall env ctx msgs resp name args w = (outc, w')"
  shows "(\<exists>c r. outc = Continue (msgs @ [c, r]) \<and> isModelTool c \<and> answersTo c r)
       \<or> (\<exists>c msg. outc = Stop (Finished (Resolved (createErrorResult (lc_hooks ctx) msg
                                   ((msgs @ [c]) @ [systemErrorMessage msg]) ERROR)))
                    \<and> isModelTool c)
       \<or> (\<exists>c n hc a. outc = Stop (HandoffByToolCall (msgs @ [c]) args hc a)
                    \<and> isModelTool c \<and> toolName c = JStr n \<and> startsWith n ''handoff_to_'')"
proof -
  define c where "c = ModelChatMessage ActionTool name args (Some (randomUUID env (clock w))) None False
                        (resp_reasoning resp)"
  have tool: "isModelTool c"
    by (simp add: c_def)
  show ?thesis
  proof (cases "toolMapGet (lc_toolMap ctx) name")
    case None
    with assms have "outc = Stop (Finished (loopCaught env ctx (msgs @ [c])
                        (ThrownError ''Error'' (''Agent requested unknown tool: '' @ jsToString name))))"
      by (auto simp add: processToolCall_def Let_def loopError_def c_def)
    with tool show ?thesis
      unfolding loopCaught_Error by blast
  next
    case (Some toolToExecute)
    obtain n where name: "name = JStr n"
      using Some by (cases name) (simp_all add: toolMapGet_def)
    show ?thesis
    proof (cases "handoffTarget (jsToString name) toolToExecute")
      case None
      show ?thesis
      proof (cases "toolOutcome env (tool_execute (asTool toolToExecute) (Suc (clock w)) args)")
        case (Inl e)
        obtain v where e: "e = ThrownError ''TypeError'' (typeErrorMessage env v)"
          using toolOutcome_Inl [OF Inl] by blast
        have "outc = Stop (Finished (loopCaught env ctx (msgs @ [c]) e))"
          using assms Some None Inl by (auto simp add: processToolCall_def Let_def c_def)
        with tool show ?thesis
          unfolding e loopCaught_Error by blast
      next
        case (Inr outcome)
        have "outc = Continue (msgs @ [c, toolResultMessage name (randomUUID env (clock w)) outcome])"
          using assms Some None Inr by (auto simp add: processToolCall_def Let_def c_def)
        moreover have "answersTo c (toolResultMessage name (randomUUID env (clock w)) outcome)"
          unfolding c_def by (rule answersTo_toolResultMessage)
        ultimately show ?thesis
          using tool by blast
      qed
    next
      case target: (Some targetAgentTool)
      have prefix: "startsWith n ''handoff_to_''"
        using target name by (auto simp add: handoffTarget_def split: RegisteredTool.splits if_splits)
      show ?thesis
      proof (cases "findLLMHandoffConfig (lc_executingAgent ctx) (tool_name targetAgentTool)")
        case None
        with assms Some target
        have "outc = Stop (Finished (loopCaught env ctx (msgs @ [c])
                (ThrownError ''Error''
                   (''Internal error: No matching '' @ [CHR 0x27] @ ''llm_tool_call'' @ [CHR 0x27]
                    @ '' handoff config found for '' @ jsToString name))))"
          by (auto simp add: processToolCall_def Let_def loopError_def c_def)
        with tool show ?thesis
          unfolding loopCaught_Error by blast
      next
        case found: (Some p)
        obtain a hc where p: "p = (a, hc)"
          by (cases p)
        have "outc = Stop (HandoffByToolCall (msgs @ [c]) args hc a)"
          using assms Some target found p by (auto simp add: processToolCall_def Let_def c_def)
        moreover have "toolName c = JStr n"
          by (simp add: c_def name)
        ultimately show ?thesis
          using tool prefix by blast
      qed
    qed
  qed
qed

lemma iterationBody_outcome:
  assumes "iterationBody env ctx i msgs w = (outc, w')"
  shows "(\<exists>c r. outc = Continue (msgs @ [c, r]) \<and> isModelTool c \<and> answersTo c r)
       \<or> (\<exists>ans f. outc = Stop (Finished (Resolved (createSuccessResult (lc_hooks ctx) ans (msgs @ [f])
                                    FINAL_ANSWER)))
                    \<and> isModelFinal f)
       \<or> (\<exists>msg. outc = Stop (Finished (Resolved (createErrorResult (lc_hooks ctx) msg
                                   (msgs @ [systemErrorMessage msg]) ERROR))))
       \<or> (\<exists>c msg. outc = Stop (Finished (Resolved (createErrorResult (lc_hooks ctx) msg
                                   ((msgs @ [c]) @ [systemErrorMessage msg]) ERROR)))
                    \<and> isModelTool c)
       \<or> (\<exists>e. outc = Stop (Finished (Rejected e)))
       \<or> (\<exists>c n llmArgs hc a. outc = Stop (HandoffByToolCall (msgs @ [c]) llmArgs hc a)
                    \<and> isModelTool c \<and> toolName c = JStr n \<and> startsWith n ''handoff_to_'')"
proof (cases "enhancePromptWithPageContext env (clock w) (iterationPrompt env ctx i)")
  case (Inl e)
  with assms show ?thesis
    by (auto simp add: iterationBody_def)
next
  case (Inr prompt)
  show ?thesis
  proof (cases "llm_call env (Suc (clock w)) (llmRequest env ctx msgs prompt)")
    case (Inl e)
    with assms Inr have outc: "outc = Stop (Finished (llmCallCaught env ctx msgs e))"
      by (auto simp add: iterationBody_def Let_def)
    show ?thesis
    proof (cases "messageOrString env e")
      case typeError: (Inl t)
      with outc show ?thesis
        by (simp add: llmCallCaught_def)
    next
      case shown: (Inr errText)
      with outc have "outc = Stop (Finished (Resolved (createErrorResult (lc_hooks ctx)
                           (''LLM call failed: '' @ errText)
                           (msgs @ [systemErrorMessage (''LLM call failed: '' @ errText)]) ERROR)))"
        by (simp add: llmCallCaught_def Let_def)
      then show ?thesis
        by blast
    qed
  next
    case resp: (Inr resp)
    show ?thesis
    proof (cases "llm_parseResponse env resp")
      case (tool_call name args)
      with assms Inr resp
      have "processToolCall env ctx msgs resp name args (tick (beginIteration ctx i msgs w)) = (outc, w')"
        by (simp add: iterationBody_def Let_def)
      from processToolCall_outcome [OF this] show ?thesis
        by blast
    next
      case (final_answer ans)
      with assms Inr resp
      have "outc = Stop (Finished (Resolved (createSuccessResult (lc_hooks ctx) ans
                                        (msgs @ [finalMessage ans resp]) FINAL_ANSWER)))"
        by (auto simp add: iterationBody_def Let_def)
      moreover have "isModelFinal (finalMessage ans resp)"
        by (simp add: finalMessage_def)
      ultimately show ?thesis
        by blast
    next
      case (error_action e)
      with assms Inr resp
      have "outc = Stop (Finished (loopCaught env ctx msgs (ThrownError ''Error'' e)))"
        by (auto simp add: iterationBody_def Let_def loopError_def)
      then show ?thesis
        unfolding loopCaught_Error by blast
    qed
  qed
qed

lemma afterLoop_end:
  assumes "toolCallsPaired msgs"
      and "afterLoop env ctx msgs w = (out, w')"
  shows "(\<exists>finalLog. out = Finished (Resolved (createErrorResult (lc_hooks ctx)
                            (maxIterationsMessage env (maxIterations (lc_config ctx))) finalLog MAX_ITERATIONS))
                      \<and> toolCallsPaired finalLog)
       \<or> (\<exists>handedLog originalArgs hc a. out = HandoffAtMaxIterations handedLog originalArgs hc a
                      \<and> toolCallsPaired handedLog)"
  using assms by (auto simp add: afterLoop_def Let_def split: option.splits prod.splits)

lemma agentLoop_end:
  assumes "toolCallsPaired msgs"
      and "agentLoop fuel env ctx i msgs w = Some (out, w')"
  shows "case out of
           Finished (Resolved res) \<Rightarrow>
               (\<exists>ans finalLog. res = createSuccessResult (lc_hooks ctx) ans finalLog FINAL_ANSWER
                                \<and> toolCallsPaired finalLog)
             \<or> (\<exists>finalLog. res = createErrorResult (lc_hooks ctx)
                                   (maxIterationsMessage env (maxIterations (lc_config ctx))) finalLog
                                   MAX_ITERATIONS
                            \<and> toolCallsPaired finalLog)
             \<or> (\<exists>msg prefix. res = createErrorResult (lc_hooks ctx) msg (prefix @ [systemErrorMessage msg]) ERROR
                      \<and> (toolCallsPaired prefix
                         \<or> (\<exists>before c. prefix = before @ [c] \<and> toolCallsPaired before \<and> isModelTool c))
                      \<and> \<not> toolCallsPaired (prefix @ [systemErrorMessage msg]))
         | Finished (Rejected e) \<Rightarrow> True
         | HandoffByToolCall handedLog llmArgs hc a \<Rightarrow>
             (\<exists>before c n. handedLog = before @ [c] \<and> toolCallsPaired before \<and> isModelTool c
                      \<and> toolName c = JStr n \<and> startsWith n ''handoff_to_''
                      \<and> \<not> toolCallsPaired handedLog)
         | HandoffAtMaxIterations handedLog originalArgs hc a \<Rightarrow> toolCallsPaired handedLog"
  using assms
proof (induction fuel arbitrary: i msgs w)
  case 0
  have "\<not> lessThanNumber i (maxIterations (lc_config ctx))"
    using "0.prems"(2) agentLoop_no_fuel [of i ctx env msgs w] by auto
  with "0.prems"(2) have "afterLoop env ctx msgs w = (out, w')"
    by (simp add: agentLoop_exit)
  from afterLoop_end [OF "0.prems"(1) this] show ?case
    by auto
next
  case (Suc fuel)
  show ?case
  proof (cases "lessThanNumber i (maxIterations (lc_config ctx))")
    case False
    with Suc.prems(2) have "afterLoop env ctx msgs w = (out, w')"
      by (simp add: agentLoop_exit)
    from afterLoop_end [OF Suc.prems(1) this] show ?thesis
      by auto
  next
    case True
    obtain outc w1 where body: "iterationBody env ctx i msgs w = (outc, w1)"
      by (cases "iterationBody env ctx i msgs w")
    from iterationBody_outcome [OF body]
    consider (continue) c r where "outc = Continue (msgs @ [c, r])" "isModelTool c" "answersTo c r"
      | (final) ans f where
          "outc = Stop (Finished (Resolved (createSuccessResult (lc_hooks ctx) ans (msgs @ [f]) FINAL_ANSWER)))"
          "isModelFinal f"
      | (failed) msg where
          "outc = Stop (Finished (Resolved (createErrorResult (lc_hooks ctx) msg
                                     (msgs @ [systemErrorMessage msg]) ERROR)))"
      | (failedCall) c msg where
          "outc = Stop (Finished (Resolved (createErrorResult (lc_hooks ctx) msg
                                     ((msgs @ [c]) @ [systemErrorMessage msg]) ERROR)))"
          "isModelTool c"
      | (rejected) e where "outc = Stop (Finished (Rejected e))"
      | (handoff) c n llmArgs hc a where
          "outc = Stop (HandoffByToolCall (msgs @ [c]) llmArgs hc a)"
          "isModelTool c" "toolName c = JStr n" "startsWith n ''handoff_to_''"
      by blast
    then show ?thesis
    proof cases
      case continue
      have paired: "toolCallsPaired (msgs @ [c, r])"
        using toolCallsPaired_append_pair [OF Suc.prems(1) continue(2,3)] .
      have "agentLoop fuel env ctx (Suc i) (msgs @ [c, r]) w1 = Some (out, w')"
        using Suc.prems(2) True body continue(1) by (simp add: agentLoop_step)
      from Suc.IH [OF paired this] show ?thesis .
    next
      case final
      have out: "out = Finished (Resolved (createSuccessResult (lc_hooks ctx) ans (msgs @ [f]) FINAL_ANSWER))"
        using Suc.prems(2) True body final(1) by (simp add: agentLoop_step)
      have "toolCallsPaired (msgs @ [f])"
        using toolCallsPaired_append_final [OF Suc.prems(1) final(2)] .
      then show ?thesis
        unfolding out by (simp only: LoopOutcome.case RunOutcome.case) blast
    next
      case failed
      have out: "out = Finished (Resolved (createErrorResult (lc_hooks ctx) msg
                                     (msgs @ [systemErrorMessage msg]) ERROR))"
        using Suc.prems(2) True body failed by (simp add: agentLoop_step)
      show ?thesis
        unfolding out using Suc.prems(1) not_paired_systemError [of msgs msg]
        by (simp only: LoopOutcome.case RunOutcome.case) blast
    next
      case failedCall
      have out: "out = Finished (Resolved (createErrorResult (lc_hooks ctx) msg
                                     ((msgs @ [c]) @ [systemErrorMessage msg]) ERROR))"
        using Suc.prems(2) True body failedCall(1) by (simp add: agentLoop_step)
      show ?thesis
        unfolding out using Suc.prems(1) failedCall(2) not_paired_systemError [of "msgs @ [c]" msg]
        by (simp only: LoopOutcome.case RunOutcome.case) blast
    next
      case rejected
      have "out = Finished (Rejected e)"
        using Suc.prems(2) True body rejected by (simp add: agentLoop_step)
      then show ?thesis
        by simp
    next
      case handoff
      have out: "out = HandoffByToolCall (msgs @ [c]) llmArgs hc a"
        using Suc.prems(2) True body handoff(1) by (simp add: agentLoop_step)
      show ?thesis
        unfolding out using Suc.prems(1) handoff(2-4) not_paired_unanswered [OF handoff(2), of msgs]
        by (simp only: LoopOutcome.case) blast
    qed
  qed
qed

lemma run_HandoffByToolCall:
  assumes "agentLoop fuel env (loopCtxOf env args cfg hooks agent) 0
             (case prepareInitialMessages hooks of Some f \<Rightarrow> f initialMessages | None \<Rightarrow> initialMessages) w
           = Some (HandoffByToolCall handedLog llmArgs hc a, w')"
  shows "run fuel env initialMessages args cfg hooks agent w =
           (case executeHandoff fuel env handedLog llmArgs hc a (apiKey cfg) (modelName cfg)
                   (maxIterations cfg) (temperatureOrZero (temperature cfg))
                   (createSuccessResult hooks) (createErrorResult hooks) (Some llmArgs) w' of
              None \<Rightarrow> None
            | Some (Resolved handoffResult, w'') \<Rightarrow> Some (Resolved handoffResult, w'')
            | Some (Rejected e, w'') \<Rightarrow>
                Some (loopCaught env (loopCtxOf env args cfg hooks agent) handedLog e, w''))"
  using assms by (simp add: run.simps Let_def)

text \<open>
  Claim C1, as the code has it. The loop of a run starts from a paired log and ends; then
  it ended in one of these ways, and the run does what is said with each.

  \<^item> With a result, which the run returns. The result was made by the success hook with
    the reason FINAL_ANSWER on a paired log; or by the error hook with the reason
    MAX_ITERATIONS on a paired log; or by the error hook with the reason ERROR on a log
    that ends with the synthetic \<^verbatim>\<open>system_error\<close> tool result, which has no
    \<^verbatim>\<open>toolCallId\<close>: before it the log is paired, or paired up to one last tool call
    that has no result; that final log is not paired.
  \<^item> With a rejection, which is the outcome of the run.
  \<^item> With the handoff for a tool call: the log handed over is a paired log followed by
    the call of a tool whose name begins with \<^verbatim>\<open>handoff_to_\<close>, with no tool result
    after it, so it is not paired.
  \<^item> With the handoff after the last iteration, on a paired log.

  Paired means: every tool call is followed, before the next MODEL message, by exactly one
  tool result with its \<^verbatim>\<open>toolCallId\<close>, and every tool result has a tool call with its
  \<^verbatim>\<open>toolCallId\<close> before it.
\<close>

theorem C1_paired_final_log:
  assumes "toolCallsPaired (case prepareInitialMessages hooks of
                              Some f \<Rightarrow> f initialMessages | None \<Rightarrow> initialMessages)"
      and "agentLoop fuel env (loopCtxOf env args cfg hooks agent) 0
             (case prepareInitialMessages hooks of Some f \<Rightarrow> f initialMessages | None \<Rightarrow> initialMessages) w
           = Some (out, w')"
  shows "case out of
           Finished (Resolved res) \<Rightarrow>
             run fuel env initialMessages args cfg hooks agent w = Some (Resolved res, w')
             \<and> ((\<exists>ans finalLog. res = createSuccessResult hooks ans finalLog FINAL_ANSWER
                                \<and> toolCallsPaired finalLog)
                \<or> (\<exists>finalLog. res = createErrorResult hooks (maxIterationsMessage env (maxIterations cfg))
                                      finalLog MAX_ITERATIONS
                               \<and> toolCallsPaired finalLog)
                \<or> (\<exists>msg prefix. res = createErrorResult hooks msg (prefix @ [systemErrorMessage msg]) ERROR
                      \<and> callIdOf (systemErrorMessage msg) = None
                      \<and> (toolCallsPaired prefix
                         \<or> (\<exists>before c. prefix = before @ [c] \<and> toolCallsPaired before \<and> isModelTool c))
                      \<and> \<not> toolCallsPaired (prefix @ [systemErrorMessage msg])))
         | Finished (Rejected e) \<Rightarrow>
             run fuel env initialMessages args cfg hooks agent w = Some (Rejected e, w')
         | HandoffByToolCall handedLog llmArgs hc a \<Rightarrow>
             run fuel env initialMessages args cfg hooks agent w =
               (case executeHandoff fuel env handedLog llmArgs hc a (apiKey cfg) (modelName cfg)
                       (maxIterations cfg) (temperatureOrZero (temperature cfg))
                       (createSuccessResult hooks) (createErrorResult hooks) (Some llmArgs) w' of
                  None \<Rightarrow> None
                | Some (Resolved handoffResult, w'') \<Rightarrow> Some (Resolved handoffResult, w'')
                | Some (Rejected e, w'') \<Rightarrow>
                    Some (loopCaught env (loopCtxOf env args cfg hooks agent) handedLog e, w''))
             \<and> (\<exists>before c n. handedLog = before @ [c] \<and> toolCallsPaired before \<and> isModelTool c
                      \<and> toolName c = JStr n \<and> startsWith n ''handoff_to_''
                      \<and> \<not> toolCallsPaired handedLog)
         | HandoffAtMaxIterations handedLog originalArgs hc a \<Rightarrow>
             run fuel env initialMessages args cfg hooks agent w =
               executeHandoff fuel env handedLog originalArgs hc a (apiKey cfg) (modelName cfg)
                 (maxIterations cfg) (temperatureOrZero (temperature cfg))
                 (createSuccessResult hooks) (createErrorResult hooks) None w'
             \<and> toolCallsPaired handedLog"
proof (cases out)
  case (Finished outcome)
  have returned: "run fuel env initialMessages args cfg hooks agent w = Some (outcome, w')"
    using assms(2) unfolding Finished by (rule run_Finished)
  show ?thesis
  proof (cases outcome)
    case (Resolved res)
    have noId: "callIdOf (systemErrorMessage msg) = None" for msg
      by (simp add: systemErrorMessage_def)
    from agentLoop_end [OF assms] returned noId show ?thesis
      unfolding Finished Resolved by (simp only: LoopOutcome.case RunOutcome.case lc_loopCtxOf) blast
  next
    case (Rejected e)
    with returned show ?thesis
      unfolding Finished by simp
  qed
next
  case (HandoffByToolCall handedLog llmArgs hc a)
  from agentLoop_end [OF assms] run_HandoffByToolCall [OF assms(2) [unfolded HandoffByToolCall]]
  show ?thesis
    unfolding HandoffByToolCall by (simp only: LoopOutcome.case)
next
  case (HandoffAtMaxIterations handedLog originalArgs hc a)
  from agentLoop_end [OF assms] run_HandoffAtMaxIterations [OF assms(2) [unfolded HandoffAtMaxIterations]]
  show ?thesis
    unfolding HandoffAtMaxIterations by (simp only: LoopOutcome.case)
qed

text \<open>The theorem of C1 for one round trip of a tool followed by a final answer, and for
  an LLM that calls \<^verbatim>\<open>handoff_to_B\<close>.\<close>

theorem C1_paired_final_log_witness:
  \<open>toolCallsPaired [UserChatMessage ''2+2?'']
   \<and> run 2 calcEnv [UserChatMessage ''2+2?''] JNull (sampleConfig [PlainTool calcTool] (Finite 3)) sampleHooks None world0
     = Some (Resolved (sampleCreateSuccessResult ''4''
               [UserChatMessage ''2+2?'',
                ModelChatMessage ActionTool (JStr ''calc'') (JObj []) (Some ''uuid-2'') None False None,
                ToolResultMessage (JStr ''calc'') (JStr ''{\<newline>  "result": 4\<newline>}'') False
                  (Some ''uuid-2'') None (Some (JObj [(''result'', JNum 4)])),
                ModelChatMessage ActionFinal JUndefined JUndefined None (Some ''4'') True None]
               FINAL_ANSWER),
             \<lparr>clock = 6,
              events = [IterationStarted ''Unknown'' 1 (Finite 3), LLMCalling ''Unknown'' 1,
                        ToolExecuting ''Unknown'' ''calc'',
                        IterationStarted ''Unknown'' 2 (Finite 3), LLMCalling ''Unknown'' 3]\<rparr>)
   \<and> toolCallsPaired [UserChatMessage ''go'']
   \<and> (\<exists>a. agentLoop 2 handingOffEnvWithB
              (loopCtxOf handingOffEnvWithB JNull (sampleConfig [] (Finite 3)) sampleHooks (Some agentA)) 0
              [UserChatMessage ''go''] world0
            = Some (HandoffByToolCall
                      [UserChatMessage ''go'',
                       ModelChatMessage ActionTool (JStr ''handoff_to_B'') (JObj []) (Some ''uuid-2'') None False None]
                      (JObj []) handoffToB a,
                    \<lparr>clock = 3, events = [IterationStarted ''A'' 1 (Finite 3), LLMCalling ''A'' 1]\<rparr>)
          \<and> run 2 handingOffEnvWithB [UserChatMessage ''go''] JNull (sampleConfig [] (Finite 3)) sampleHooks
               (Some agentA) world0
            = (case executeHandoff 2 handingOffEnvWithB
                      [UserChatMessage ''go'',
                       ModelChatMessage ActionTool (JStr ''handoff_to_B'') (JObj []) (Some ''uuid-2'') None False None]
                      (JObj []) handoffToB a ''key'' ''model'' (Finite 3) 0
                      sampleCreateSuccessResult sampleCreateErrorResult (Some (JObj []))
                      \<lparr>clock = 3, events = [IterationStarted ''A'' 1 (Finite 3), LLMCalling ''A'' 1]\<rparr> of
                 None \<Rightarrow> None
               | Some (Resolved handoffResult, w'') \<Rightarrow> Some (Resolved handoffResult, w'')
               | Some (Rejected e, w'') \<Rightarrow>
                   Some (loopCaught handingOffEnvWithB
                           (loopCtxOf handingOffEnvWithB JNull (sampleConfig [] (Finite 3)) sampleHooks (Some agentA))
                           [UserChatMessage ''go'',
                            ModelChatMessage ActionTool (JStr ''handoff_to_B'') (JObj []) (Some ''uuid-2'') None
                              False None] e, w'')))
   \<and> \<not> toolCallsPaired
         [UserChatMessage ''go'',
          ModelChatMessage ActionTool (JStr ''handoff_to_B'') (JObj []) (Some ''uuid-2'') None False None]\<close>
proof -
  let ?R = \<open>sampleCreateSuccessResult ''4''
               [UserChatMessage ''2+2?'',
                ModelChatMessage ActionTool (JStr ''calc'') (JObj []) (Some ''uuid-2'') None False None,
                ToolResultMessage (JStr ''calc'') (JStr ''{\<newline>  "result": 4\<newline>}'') False
                  (Some ''uuid-2'') None (Some (JObj [(''result'', JNum 4)])),
                ModelChatMessage ActionFinal JUndefined JUndefined None (Some ''4'') True None]
               FINAL_ANSWER\<close>
  let ?W = "\<lparr>clock = 6,
              events = [IterationStarted ''Unknown'' 1 (Finite 3), LLMCalling ''Unknown'' 1,
                        ToolExecuting ''Unknown'' ''calc'',
                        IterationStarted ''Unknown'' 2 (Finite 3), LLMCalling ''Unknown'' 3]\<rparr>"
  let ?L = "[UserChatMessage ''go'',
             ModelChatMessage ActionTool (JStr ''handoff_to_B'') (JObj []) (Some ''uuid-2'') None False None]"
  let ?W2 = "\<lparr>clock = 3, events = [IterationStarted ''A'' 1 (Finite 3), LLMCalling ''A'' 1]\<rparr>"
  have h1: "toolCallsPaired (case prepareInitialMessages sampleHooks of
                               Some f \<Rightarrow> f [UserChatMessage ''2+2?''] | None \<Rightarrow> [UserChatMessage ''2+2?''])"
    by (simp add: sampleHooks_def toolCallsPaired_def)
  have \<open>case agentLoop 2 calcEnv (loopCtxOf calcEnv JNull (sampleConfig [PlainTool calcTool] (Finite 3)) sampleHooks None) 0
             (case prepareInitialMessages sampleHooks of
                Some f \<Rightarrow> f [UserChatMessage ''2+2?''] | None \<Rightarrow> [UserChatMessage ''2+2?'']) world0 of
          Some (Finished (Resolved r), w) \<Rightarrow> r = ?R \<and> w = ?W
        | _ \<Rightarrow> False\<close>
    by code_simp
  then have h2: "agentLoop 2 calcEnv (loopCtxOf calcEnv JNull (sampleConfig [PlainTool calcTool] (Finite 3)) sampleHooks None) 0
             (case prepareInitialMessages sampleHooks of
                Some f \<Rightarrow> f [UserChatMessage ''2+2?''] | None \<Rightarrow> [UserChatMessage ''2+2?'']) world0
     = Some (Finished (Resolved ?R), ?W)"
    by (simp split: option.splits prod.splits LoopOutcome.splits RunOutcome.splits)
  have first: "run 2 calcEnv [UserChatMessage ''2+2?''] JNull (sampleConfig [PlainTool calcTool] (Finite 3))
                 sampleHooks None world0 = Some (Resolved ?R, ?W)"
    using C1_paired_final_log [OF h1 h2]
    by (simp only: LoopOutcome.case RunOutcome.case)
  have g1: "toolCallsPaired (case prepareInitialMessages sampleHooks of
                               Some f \<Rightarrow> f [UserChatMessage ''go''] | None \<Rightarrow> [UserChatMessage ''go''])"
    by (simp add: sampleHooks_def toolCallsPaired_def)
  have \<open>case agentLoop 2 handingOffEnvWithB
               (loopCtxOf handingOffEnvWithB JNull (sampleConfig [] (Finite 3)) sampleHooks (Some agentA)) 0
               (case prepareInitialMessages sampleHooks of
                  Some f \<Rightarrow> f [UserChatMessage ''go''] | None \<Rightarrow> [UserChatMessage ''go'']) world0 of
          Some (HandoffByToolCall handedLog llmArgs hc a, w) \<Rightarrow>
            handedLog = ?L \<and> llmArgs = JObj [] \<and> hc = handoffToB \<and> w = ?W2
        | _ \<Rightarrow> False\<close>
    by code_simp
  then obtain a where g2: "agentLoop 2 handingOffEnvWithB
               (loopCtxOf handingOffEnvWithB JNull (sampleConfig [] (Finite 3)) sampleHooks (Some agentA)) 0
               (case prepareInitialMessages sampleHooks of
                  Some f \<Rightarrow> f [UserChatMessage ''go''] | None \<Rightarrow> [UserChatMessage ''go'']) world0
            = Some (HandoffByToolCall ?L (JObj []) handoffToB a, ?W2)"
    by (auto split: option.splits prod.splits LoopOutcome.splits RunOutcome.splits)
  have handed: "run 2 handingOffEnvWithB [UserChatMessage ''go''] JNull (sampleConfig [] (Finite 3)) sampleHooks
               (Some agentA) world0
            = (case executeHandoff 2 handingOffEnvWithB ?L (JObj []) handoffToB a
                      (apiKey (sampleConfig [] (Finite 3))) (modelName (sampleConfig [] (Finite 3)))
                      (maxIterations (sampleConfig [] (Finite 3)))
                      (temperatureOrZero (temperature (sampleConfig [] (Finite 3))))
                      (createSuccessResult sampleHooks) (createErrorResult sampleHooks) (Some (JObj [])) ?W2 of
                 None \<Rightarrow> None
               | Some (Resolved handoffResult, w'') \<Rightarrow> Some (Resolved handoffResult, w'')
               | Some (Rejected e, w'') \<Rightarrow>
                   Some (loopCaught handingOffEnvWithB
                           (loopCtxOf handingOffEnvWithB JNull (sampleConfig [] (Finite 3)) sampleHooks (Some agentA))
                           ?L e, w''))"
    and unpaired: "\<not> toolCallsPaired ?L"
    using C1_paired_final_log [OF g1 g2]
    by (simp_all only: LoopOutcome.case) blast+
  have settings: "apiKey (sampleConfig [] (Finite 3)) = ''key''" "modelName (sampleConfig [] (Finite 3)) = ''model''"
    "maxIterations (sampleConfig [] (Finite 3)) = Finite 3"
    "temperatureOrZero (temperature (sampleConfig [] (Finite 3))) = 0"
    "createSuccessResult sampleHooks = sampleCreateSuccessResult"
    "createErrorResult sampleHooks = sampleCreateErrorResult"
    by (simp_all add: sampleConfig_def sampleHooks_def temperatureOrZero_def)
  have start: "(case prepareInitialMessages sampleHooks of
                  Some f \<Rightarrow> f [UserChatMessage ''go''] | None \<Rightarrow> [UserChatMessage ''go''])
               = [UserChatMessage ''go'']"
    by (simp add: sampleHooks_def)
  have second: "\<exists>a. agentLoop 2 handingOffEnvWithB
              (loopCtxOf handingOffEnvWithB JNull (sampleConfig [] (Finite 3)) sampleHooks (Some agentA)) 0
              [UserChatMessage ''go''] world0
            = Some (HandoffByToolCall ?L (JObj []) handoffToB a, ?W2)
          \<and> run 2 handingOffEnvWithB [UserChatMessage ''go''] JNull (sampleConfig [] (Finite 3)) sampleHooks
               (Some agentA) world0
            = (case executeHandoff 2 handingOffEnvWithB ?L (JObj []) handoffToB a ''key'' ''model'' (Finite 3) 0
                      sampleCreateSuccessResult sampleCreateErrorResult (Some (JObj [])) ?W2 of
                 None \<Rightarrow> None
               | Some (Resolved handoffResult, w'') \<Rightarrow> Some (Resolved handoffResult, w'')
               | Some (Rejected e, w'') \<Rightarrow>
                   Some (loopCaught handingOffEnvWithB
                           (loopCtxOf handingOffEnvWithB JNull (sampleConfig [] (Finite 3)) sampleHooks (Some agentA))
                           ?L e, w''))"
    using g2 handed unfolding settings start by blast
  have p1: "toolCallsPaired [UserChatMessage ''2+2?'']"
    by (simp add: toolCallsPaired_def)
  have p2: "toolCallsPaired [UserChatMessage ''go'']"
    by (simp add: toolCallsPaired_def)
  from p1 first p2 second unpaired show ?thesis
    by (intro conjI)
qed

text \<open>
  Claim C1 as stated fails. After a failed LLM call the final log ends with a tool result
  that has no \<^verbatim>\<open>toolCallId\<close> and no tool call before it. After a handoff by the tool
  call \<^verbatim>\<open>handoff_to_B\<close> to an agent that returns its steps, the final log holds that
  tool call twice, each time with no tool result after it.
\<close>

theorem C1_unpaired_final_log_counterexample:
  "run 1 failingEnv [UserChatMessage ''2+2?''] JNull (sampleConfig [] (Finite 3)) sampleHooks None world0
     = Some (Resolved (sampleCreateErrorResult ''LLM call failed: timeout''
               [UserChatMessage ''2+2?'',
                ToolResultMessage (JStr ''system_error'') (JStr ''LLM call failed: timeout'') True None
                  (Some (JStr ''LLM call failed: timeout'')) None]
               ERROR),
             \<lparr>clock = 2, events = [IterationStarted ''Unknown'' 1 (Finite 3), LLMCalling ''Unknown'' 1]\<rparr>)
   \<and> \<not> toolCallsPaired
         [UserChatMessage ''2+2?'',
          ToolResultMessage (JStr ''system_error'') (JStr ''LLM call failed: timeout'') True None
            (Some (JStr ''LLM call failed: timeout'')) None]
   \<and> run 2 handingOffEnvWithB [UserChatMessage ''go''] JNull (sampleConfig [] (Finite 3)) sampleHooks
        (Some agentA) world0
     = Some (Resolved (sampleCreateSuccessResult ''done''
               [UserChatMessage ''go'',
                ModelChatMessage ActionTool (JStr ''handoff_to_B'') (JObj []) (Some ''uuid-2'') None False None,
                UserChatMessage ''go'',
                ModelChatMessage ActionTool (JStr ''handoff_to_B'') (JObj []) (Some ''uuid-2'') None False None,
                ModelChatMessage ActionFinal JUndefined JUndefined None (Some ''done'') True None]
               FINAL_ANSWER),
             \<lparr>clock = 6,
              events = [IterationStarted ''A'' 1 (Finite 3), LLMCalling ''A'' 1, HandoffInitiated ''A'' ''B'',
                        IterationStarted ''B'' 1 (Finite 3), LLMCalling ''B'' 2]\<rparr>)
   \<and> \<not> toolCallsPaired
         [UserChatMessage ''go'',
          ModelChatMessage ActionTool (JStr ''handoff_to_B'') (JObj []) (Some ''uuid-2'') None False None,
          UserChatMessage ''go'',
          ModelChatMessage ActionTool (JStr ''handoff_to_B'') (JObj []) (Some ''uuid-2'') None False None,
          ModelChatMessage ActionFinal JUndefined JUndefined None (Some ''done'') True None]"
  by code_simp

end
